theory Spec2Isabelle
  imports Complex_Main
begin

section \<open>Python values as they arrive from MessagePack\<close>

text \<open>
  \<^verbatim>\<open>msgpack.unpackb\<close> hands the sample client plain Python values: null, booleans,
  integers, floats, strings, arrays and maps. The decoders of \<^verbatim>\<open>session_state.py\<close>
  never check the type of what they read, so most entity fields hold whatever value
  was on the wire. The model keeps that: a field that the source passes through
  unchanged has type \<open>pyval\<close>.

  Floats are only stored, tested for truth and compared with enum codes; they are
  modelled by their real value (finite floats). A string is the list of its characters.
  A dict is the list of its items, in insertion order.
\<close>

datatype pyval =
    PNone
  | PBool bool
  | PInt int
  | PFloat real
  | PStr string
  | PList "pyval list"
  | PDict "(pyval \<times> pyval) list"

text \<open>
  The exceptions the decoders can raise. \<open>UnexpectedFormat\<close> is the \<^verbatim>\<open>ValueError\<close>
  that \<^verbatim>\<open>get_current_session_state\<close> raises itself for a payload that is neither a
  dict nor a list; \<open>OtherError\<close> stands for whatever \<^verbatim>\<open>datetime.fromtimestamp\<close> raises.
\<close>

datatype error = TypeError | ValueError | KeyError | IndexError | UnexpectedFormat | OtherError

type_synonym 'a result = "error + 'a"

text \<open>Sequencing of two computations that may raise: the first exception wins.\<close>

fun bindE :: "'a result \<Rightarrow> ('a \<Rightarrow> 'b result) \<Rightarrow> 'b result" where
  "bindE (Inl e) f = Inl e"
| "bindE (Inr x) f = f x"

text \<open>A list comprehension \<^verbatim>\<open>[f(x) for x in xs]\<close> whose body may raise.\<close>

fun mapE :: "('a \<Rightarrow> 'b result) \<Rightarrow> 'a list \<Rightarrow> 'b list result" where
  "mapE f [] = Inr []"
| "mapE f (x # xs) = bindE (f x) (\<lambda>y. bindE (mapE f xs) (\<lambda>ys. Inr (y # ys)))"

text \<open>Python truth value, as used by \<^verbatim>\<open>x or d\<close> and \<^verbatim>\<open>a and b\<close>.\<close>

fun truthy :: "pyval \<Rightarrow> bool" where
  "truthy PNone = False"
| "truthy (PBool b) = b"
| "truthy (PInt n) = (n \<noteq> 0)"
| "truthy (PFloat r) = (r \<noteq> 0)"
| "truthy (PStr s) = (s \<noteq> [])"
| "truthy (PList xs) = (xs \<noteq> [])"
| "truthy (PDict kvs) = (kvs \<noteq> [])"

text \<open>\<^verbatim>\<open>x or d\<close> on values.\<close>

definition py_or :: "pyval \<Rightarrow> pyval \<Rightarrow> pyval" where
  "py_or x d = (if truthy x then x else d)"

text \<open>
  \<^verbatim>\<open>x or []\<close> for a parameter annotated \<^verbatim>\<open>Optional[List[T]]\<close>: \<^verbatim>\<open>None\<close> and the empty list
  are both false.
\<close>

definition list_or_empty :: "'a list option \<Rightarrow> 'a list" where
  "list_or_empty x = (case x of None \<Rightarrow> [] | Some xs \<Rightarrow> (if xs \<noteq> [] then xs else []))"

text \<open>
  The integer a value is equal to under Python's \<^verbatim>\<open>==\<close> (and hash), if there is one:
  \<^verbatim>\<open>True == 1\<close>, \<^verbatim>\<open>2.0 == 2\<close>. This decides dict lookups with an integer key and the
  lookup of an enum member by value.
\<close>

fun int_value :: "pyval \<Rightarrow> int option" where
  "int_value (PInt n) = Some n"
| "int_value (PBool b) = Some (if b then 1 else 0)"
| "int_value (PFloat r) = (if r = of_int \<lfloor>r\<rfloor> then Some \<lfloor>r\<rfloor> else None)"
| "int_value v = None"

text \<open>\<^verbatim>\<open>d[k]\<close> / \<^verbatim>\<open>d.get(k)\<close> for an integer key \<open>k\<close>: \<open>None\<close> when the key is missing.\<close>

fun py_dict_get :: "(pyval \<times> pyval) list \<Rightarrow> int \<Rightarrow> pyval option" where
  "py_dict_get [] k = None"
| "py_dict_get (kv # kvs) k =
     (if int_value (fst kv) = Some k then Some (snd kv) else py_dict_get kvs k)"

text \<open>\<^verbatim>\<open>d.get(k, default)\<close>.\<close>

definition dict_get_default :: "(pyval \<times> pyval) list \<Rightarrow> int \<Rightarrow> pyval \<Rightarrow> pyval" where
  "dict_get_default d k dflt = (case py_dict_get d k of None \<Rightarrow> dflt | Some v \<Rightarrow> v)"

text \<open>\<^verbatim>\<open>len(data)\<close>: a \<^verbatim>\<open>TypeError\<close> for a value without length.\<close>

fun py_len :: "pyval \<Rightarrow> nat result" where
  "py_len (PList xs) = Inr (length xs)"
| "py_len (PStr s) = Inr (length s)"
| "py_len (PDict kvs) = Inr (length kvs)"
| "py_len v = Inl TypeError"

text \<open>
  \<^verbatim>\<open>data[i]\<close> for a constant index \<open>i \<ge> 0\<close>: a list element, a one-character string,
  or the dict entry with key \<open>i\<close>.
\<close>

fun py_getitem :: "pyval \<Rightarrow> nat \<Rightarrow> pyval result" where
  "py_getitem (PList xs) i = (if i < length xs then Inr (xs ! i) else Inl IndexError)"
| "py_getitem (PStr s) i = (if i < length s then Inr (PStr [s ! i]) else Inl IndexError)"
| "py_getitem (PDict kvs) i =
     (case py_dict_get kvs (int i) of None \<Rightarrow> Inl KeyError | Some v \<Rightarrow> Inr v)"
| "py_getitem v i = Inl TypeError"

text \<open>\<^verbatim>\<open>for x in data\<close>: a dict iterates over its keys, a string over its characters.\<close>

fun py_iter :: "pyval \<Rightarrow> pyval list result" where
  "py_iter (PList xs) = Inr xs"
| "py_iter (PStr s) = Inr (map (\<lambda>c. PStr [c]) s)"
| "py_iter (PDict kvs) = Inr (map fst kvs)"
| "py_iter v = Inl TypeError"

text \<open>
  The idiom of every \<^verbatim>\<open>from_msgpack\<close>: \<^verbatim>\<open>data[i] if len(data) > i else None\<close>, with
  \<open>None\<close> here meaning that the \<^verbatim>\<open>else\<close> branch is taken.
\<close>

definition field_at :: "pyval \<Rightarrow> nat \<Rightarrow> pyval option result" where
  "field_at data i =
     bindE (py_len data) (\<lambda>n. if n > i then bindE (py_getitem data i) (\<lambda>v. Inr (Some v))
                                else Inr None)"

text \<open>\<^verbatim>\<open>data[i] if len(data) > i else dflt\<close>.\<close>

definition field_or :: "pyval \<Rightarrow> nat \<Rightarrow> pyval \<Rightarrow> pyval result" where
  "field_or data i dflt =
     bindE (field_at data i) (\<lambda>v. Inr (case v of None \<Rightarrow> dflt | Some x \<Rightarrow> x))"

text \<open>
  \<^verbatim>\<open>data[i] if len(data) > i and data[i] else ...\<close>: the value when it is present and
  true, \<open>None\<close> when the \<^verbatim>\<open>else\<close> branch is taken.
\<close>

definition field_if_true :: "pyval \<Rightarrow> nat \<Rightarrow> pyval option result" where
  "field_if_true data i =
     bindE (field_at data i)
       (\<lambda>v. Inr (case v of None \<Rightarrow> None | Some x \<Rightarrow> (if truthy x then Some x else None)))"

section \<open>The standard library the decoders call\<close>

text \<open>
  \<^verbatim>\<open>datetime\<close> and \<^verbatim>\<open>time\<close> are Python's own; the source only calls
  \<^verbatim>\<open>fromisoformat\<close>, \<^verbatim>\<open>fromtimestamp\<close> and \<^verbatim>\<open>isoformat\<close>. They are parameters of
  the model: \<open>'dt\<close> is the type of datetimes, \<open>'tm\<close> the type of times.
  \<^verbatim>\<open>fromisoformat\<close> returns \<open>None\<close> where Python raises \<^verbatim>\<open>ValueError\<close>.
\<close>

record ('dt, 'tm) stdlib =
  datetime_fromisoformat :: "string \<Rightarrow> 'dt option"
  datetime_fromtimestamp :: "pyval \<Rightarrow> 'dt option"
  datetime_isoformat :: "'dt \<Rightarrow> string"
  time_fromisoformat :: "string \<Rightarrow> 'tm option"
  time_isoformat :: "'tm \<Rightarrow> string"

text \<open>\<^verbatim>\<open>_parse_datetime\<close>: a wire value is never a \<^verbatim>\<open>datetime\<close> object already.\<close>

fun parse_datetime :: "('dt, 'tm) stdlib \<Rightarrow> pyval \<Rightarrow> 'dt option result" where
  "parse_datetime L PNone = Inr None"
| "parse_datetime L (PStr s) =
     (case datetime_fromisoformat L s of None \<Rightarrow> Inl ValueError | Some d \<Rightarrow> Inr (Some d))"
| "parse_datetime L (PInt n) =
     (case datetime_fromtimestamp L (PInt n) of None \<Rightarrow> Inl OtherError | Some d \<Rightarrow> Inr (Some d))"
| "parse_datetime L (PFloat r) =
     (case datetime_fromtimestamp L (PFloat r) of None \<Rightarrow> Inl OtherError | Some d \<Rightarrow> Inr (Some d))"
| "parse_datetime L (PBool b) =
     (case datetime_fromtimestamp L (PBool b) of None \<Rightarrow> Inl OtherError | Some d \<Rightarrow> Inr (Some d))"
| "parse_datetime L (PList xs) = Inr None"
| "parse_datetime L (PDict kvs) = Inr None"

text \<open>\<^verbatim>\<open>_parse_time\<close>.\<close>

fun parse_time :: "('dt, 'tm) stdlib \<Rightarrow> pyval \<Rightarrow> 'tm option result" where
  "parse_time L PNone = Inr None"
| "parse_time L (PStr s) =
     (case time_fromisoformat L s of None \<Rightarrow> Inl ValueError | Some t \<Rightarrow> Inr (Some t))"
| "parse_time L v = Inr None"

text \<open>\<^verbatim>\<open>x.isoformat() if x else None\<close>: datetimes and times are always true.\<close>

definition datetime_to_wire :: "('dt, 'tm) stdlib \<Rightarrow> 'dt option \<Rightarrow> pyval" where
  "datetime_to_wire L x = (case x of None \<Rightarrow> PNone | Some d \<Rightarrow> PStr (datetime_isoformat L d))"

definition time_to_wire :: "('dt, 'tm) stdlib \<Rightarrow> 'tm option \<Rightarrow> pyval" where
  "time_to_wire L x = (case x of None \<Rightarrow> PNone | Some t \<Rightarrow> PStr (time_isoformat L t))"

section \<open>Enumerations\<close>

datatype Flags = UNKNOWN | GREEN | YELLOW | RED | WHITE | CHECKERED | BLACK | PURPLE35

datatype VideoSystemType =
  VST_NONE | VST_GENERIC | VST_SENTINEL | VST_MY_RACES_LIVE | VST_AUTOSPORT_LABS

datatype VideoDestinationType =
  VDT_NONE | VDT_YOUTUBE | VDT_FACEBOOK | VDT_VIMEO | VDT_DIRECT_SRT

text \<open>\<^verbatim>\<open>int(member)\<close>.\<close>

fun int_of_Flags :: "Flags \<Rightarrow> int" where
  "int_of_Flags UNKNOWN = 0"
| "int_of_Flags GREEN = 1"
| "int_of_Flags YELLOW = 2"
| "int_of_Flags RED = 3"
| "int_of_Flags WHITE = 4"
| "int_of_Flags CHECKERED = 5"
| "int_of_Flags BLACK = 6"
| "int_of_Flags PURPLE35 = 7"

fun int_of_VideoSystemType :: "VideoSystemType \<Rightarrow> int" where
  "int_of_VideoSystemType VST_NONE = 0"
| "int_of_VideoSystemType VST_GENERIC = 1"
| "int_of_VideoSystemType VST_SENTINEL = 2"
| "int_of_VideoSystemType VST_MY_RACES_LIVE = 3"
| "int_of_VideoSystemType VST_AUTOSPORT_LABS = 4"

fun int_of_VideoDestinationType :: "VideoDestinationType \<Rightarrow> int" where
  "int_of_VideoDestinationType VDT_NONE = 0"
| "int_of_VideoDestinationType VDT_YOUTUBE = 1"
| "int_of_VideoDestinationType VDT_FACEBOOK = 2"
| "int_of_VideoDestinationType VDT_VIMEO = 3"
| "int_of_VideoDestinationType VDT_DIRECT_SRT = 4"

text \<open>
  \<^verbatim>\<open>Flags(value)\<close>: the member with that value, \<^verbatim>\<open>ValueError\<close> when there is none.
  An \<^verbatim>\<open>IntEnum\<close> finds its member through equality with the member's integer.
\<close>

definition Flags_of_int :: "int \<Rightarrow> Flags result" where
  "Flags_of_int n =
     (if n = 0 then Inr UNKNOWN else if n = 1 then Inr GREEN else if n = 2 then Inr YELLOW
      else if n = 3 then Inr RED else if n = 4 then Inr WHITE else if n = 5 then Inr CHECKERED
      else if n = 6 then Inr BLACK else if n = 7 then Inr PURPLE35 else Inl ValueError)"

definition Flags_call :: "pyval \<Rightarrow> Flags result" where
  "Flags_call v = (case int_value v of None \<Rightarrow> Inl ValueError | Some n \<Rightarrow> Flags_of_int n)"

definition VideoSystemType_of_int :: "int \<Rightarrow> VideoSystemType result" where
  "VideoSystemType_of_int n =
     (if n = 0 then Inr VST_NONE else if n = 1 then Inr VST_GENERIC
      else if n = 2 then Inr VST_SENTINEL else if n = 3 then Inr VST_MY_RACES_LIVE
      else if n = 4 then Inr VST_AUTOSPORT_LABS else Inl ValueError)"

definition VideoSystemType_call :: "pyval \<Rightarrow> VideoSystemType result" where
  "VideoSystemType_call v =
     (case int_value v of None \<Rightarrow> Inl ValueError | Some n \<Rightarrow> VideoSystemType_of_int n)"

definition VideoDestinationType_of_int :: "int \<Rightarrow> VideoDestinationType result" where
  "VideoDestinationType_of_int n =
     (if n = 0 then Inr VDT_NONE else if n = 1 then Inr VDT_YOUTUBE
      else if n = 2 then Inr VDT_FACEBOOK else if n = 3 then Inr VDT_VIMEO
      else if n = 4 then Inr VDT_DIRECT_SRT else Inl ValueError)"

definition VideoDestinationType_call :: "pyval \<Rightarrow> VideoDestinationType result" where
  "VideoDestinationType_call v =
     (case int_value v of None \<Rightarrow> Inl ValueError | Some n \<Rightarrow> VideoDestinationType_of_int n)"

section \<open>Decoding helpers\<close>

text \<open>\<^verbatim>\<open>f(data[i]) if ... else d\<close>, once the condition has been evaluated.\<close>

definition decode_or :: "'a \<Rightarrow> (pyval \<Rightarrow> 'a result) \<Rightarrow> pyval option \<Rightarrow> 'a result" where
  "decode_or d f v = (case v of None \<Rightarrow> Inr d | Some x \<Rightarrow> f x)"

text \<open>\<^verbatim>\<open>[f(x) for x in value]\<close>.\<close>

definition decode_list :: "(pyval \<Rightarrow> 'a result) \<Rightarrow> pyval \<Rightarrow> 'a list result" where
  "decode_list f x = bindE (py_iter x) (mapE f)"

text \<open>A decoded nested record, as the value of an optional field.\<close>

definition decode_some :: "(pyval \<Rightarrow> 'a result) \<Rightarrow> pyval \<Rightarrow> 'a option result" where
  "decode_some f x = bindE (f x) (\<lambda>y. Inr (Some y))"

section \<open>The entities of \<^verbatim>\<open>session_state.py\<close>\<close>

text \<open>
  Each class is a record; its \<^verbatim>\<open>__init__\<close> is the function \<open>_init\<close>, the object built
  with no argument is \<open>_default\<close>. Field names carry a prefix for the class
  (\<open>cp_number\<close> is \<^verbatim>\<open>CarPosition.number\<close>), since several classes share names.
\<close>

subsection \<open>VideoDestination\<close>

record VideoDestination =
  vd_type :: VideoDestinationType  \<comment> \<open>Key 0\<close>
  vd_url :: pyval  \<comment> \<open>Key 1\<close>
  vd_host_name :: pyval  \<comment> \<open>Key 2\<close>
  vd_port :: pyval  \<comment> \<open>Key 3\<close>
  vd_parameters :: pyval  \<comment> \<open>Key 4\<close>

definition VideoDestination_init ::
  "VideoDestinationType \<Rightarrow> pyval \<Rightarrow> pyval \<Rightarrow> pyval \<Rightarrow> pyval \<Rightarrow> VideoDestination" where
  "VideoDestination_init destination_type url host_name port parameters =
     \<lparr>vd_type = destination_type, vd_url = url, vd_host_name = host_name, vd_port = port,
      vd_parameters = parameters\<rparr>"

definition VideoDestination_default :: VideoDestination where
  "VideoDestination_default =
     VideoDestination_init VDT_NONE (PStr []) (PStr []) (PInt 0) (PStr [])"

definition VideoDestination_to_msgpack :: "VideoDestination \<Rightarrow> pyval list" where
  "VideoDestination_to_msgpack self =
     [PInt (int_of_VideoDestinationType (vd_type self)), vd_url self, vd_host_name self,
      vd_port self, vd_parameters self]"

definition VideoDestination_from_msgpack :: "pyval \<Rightarrow> VideoDestination result" where
  "VideoDestination_from_msgpack data =
     bindE (bindE (field_at data 0) (decode_or VDT_NONE VideoDestinationType_call))
       (\<lambda>destination_type.
     bindE (field_or data 1 (PStr [])) (\<lambda>url.
     bindE (field_or data 2 (PStr [])) (\<lambda>host_name.
     bindE (field_or data 3 (PInt 0)) (\<lambda>port.
     bindE (field_or data 4 (PStr [])) (\<lambda>parameters.
     Inr (VideoDestination_init destination_type url host_name port parameters))))))"

definition VideoDestination_field_eqs :: "VideoDestination \<Rightarrow> VideoDestination \<Rightarrow> bool list" where
  "VideoDestination_field_eqs a b =
     [vd_type a = vd_type b, vd_url a = vd_url b, vd_host_name a = vd_host_name b,
      vd_port a = vd_port b, vd_parameters a = vd_parameters b]"

subsection \<open>VideoStatus\<close>

record VideoStatus =
  vs_video_system_type :: VideoSystemType  \<comment> \<open>Key 0\<close>
  vs_video_destination :: VideoDestination  \<comment> \<open>Key 1\<close>

text \<open>
  \<^verbatim>\<open>self.video_destination = video_destination or VideoDestination()\<close>: an object is
  always true, so only \<^verbatim>\<open>None\<close> is replaced.
\<close>

definition VideoStatus_init :: "VideoSystemType \<Rightarrow> VideoDestination option \<Rightarrow> VideoStatus" where
  "VideoStatus_init video_system_type video_destination =
     \<lparr>vs_video_system_type = video_system_type,
      vs_video_destination =
        (case video_destination of None \<Rightarrow> VideoDestination_default | Some d \<Rightarrow> d)\<rparr>"

definition VideoStatus_default :: VideoStatus where
  "VideoStatus_default = VideoStatus_init VST_NONE None"

definition VideoStatus_to_msgpack :: "VideoStatus \<Rightarrow> pyval list" where
  "VideoStatus_to_msgpack self =
     [PInt (int_of_VideoSystemType (vs_video_system_type self)),
      PList (VideoDestination_to_msgpack (vs_video_destination self))]"

definition VideoStatus_from_msgpack :: "pyval \<Rightarrow> VideoStatus result" where
  "VideoStatus_from_msgpack data =
     bindE (bindE (field_at data 0) (decode_or VST_NONE VideoSystemType_call))
       (\<lambda>video_system_type.
     bindE (bindE (field_if_true data 1)
              (decode_or VideoDestination_default VideoDestination_from_msgpack))
       (\<lambda>video_destination.
     Inr (VideoStatus_init video_system_type (Some video_destination))))"

definition VideoStatus_field_eqs :: "VideoStatus \<Rightarrow> VideoStatus \<Rightarrow> bool list" where
  "VideoStatus_field_eqs a b =
     [vs_video_system_type a = vs_video_system_type b,
      vs_video_destination a = vs_video_destination b]"

subsection \<open>CompletedSection\<close>

record CompletedSection =
  cs_number :: pyval  \<comment> \<open>Key 0\<close>
  cs_section_id :: pyval  \<comment> \<open>Key 1\<close>
  cs_elapsed_time_ms :: pyval  \<comment> \<open>Key 2\<close>
  cs_last_section_time_ms :: pyval  \<comment> \<open>Key 3\<close>
  cs_last_lap :: pyval  \<comment> \<open>Key 4\<close>

definition CompletedSection_init ::
  "pyval \<Rightarrow> pyval \<Rightarrow> pyval \<Rightarrow> pyval \<Rightarrow> pyval \<Rightarrow> CompletedSection" where
  "CompletedSection_init number section_id elapsed_time_ms last_section_time_ms last_lap =
     \<lparr>cs_number = number, cs_section_id = section_id, cs_elapsed_time_ms = elapsed_time_ms,
      cs_last_section_time_ms = last_section_time_ms, cs_last_lap = last_lap\<rparr>"

definition CompletedSection_default :: CompletedSection where
  "CompletedSection_default =
     CompletedSection_init (PStr []) (PStr []) (PInt 0) (PInt 0) (PInt 0)"

definition CompletedSection_to_msgpack :: "CompletedSection \<Rightarrow> pyval list" where
  "CompletedSection_to_msgpack self =
     [cs_number self, cs_section_id self, cs_elapsed_time_ms self,
      cs_last_section_time_ms self, cs_last_lap self]"

definition CompletedSection_from_msgpack :: "pyval \<Rightarrow> CompletedSection result" where
  "CompletedSection_from_msgpack data =
     bindE (field_or data 0 (PStr [])) (\<lambda>number.
     bindE (field_or data 1 (PStr [])) (\<lambda>section_id.
     bindE (field_or data 2 (PInt 0)) (\<lambda>elapsed_time_ms.
     bindE (field_or data 3 (PInt 0)) (\<lambda>last_section_time_ms.
     bindE (field_or data 4 (PInt 0)) (\<lambda>last_lap.
     Inr (CompletedSection_init number section_id elapsed_time_ms last_section_time_ms
            last_lap))))))"

definition CompletedSection_field_eqs :: "CompletedSection \<Rightarrow> CompletedSection \<Rightarrow> bool list" where
  "CompletedSection_field_eqs a b =
     [cs_number a = cs_number b, cs_section_id a = cs_section_id b,
      cs_elapsed_time_ms a = cs_elapsed_time_ms b,
      cs_last_section_time_ms a = cs_last_section_time_ms b, cs_last_lap a = cs_last_lap b]"

subsection \<open>EventEntry\<close>

record EventEntry =
  ee_number :: pyval  \<comment> \<open>Key 0\<close>
  ee_name :: pyval  \<comment> \<open>Key 1\<close>
  ee_team :: pyval  \<comment> \<open>Key 2\<close>
  ee_class_name :: pyval  \<comment> \<open>Key 3\<close>

definition EventEntry_init :: "pyval \<Rightarrow> pyval \<Rightarrow> pyval \<Rightarrow> pyval \<Rightarrow> EventEntry" where
  "EventEntry_init number name team class_name =
     \<lparr>ee_number = number, ee_name = name, ee_team = team, ee_class_name = class_name\<rparr>"

definition EventEntry_default :: EventEntry where
  "EventEntry_default = EventEntry_init (PStr []) (PStr []) (PStr []) (PStr [])"

definition EventEntry_to_msgpack :: "EventEntry \<Rightarrow> pyval list" where
  "EventEntry_to_msgpack self = [ee_number self, ee_name self, ee_team self, ee_class_name self]"

definition EventEntry_from_msgpack :: "pyval \<Rightarrow> EventEntry result" where
  "EventEntry_from_msgpack data =
     bindE (field_or data 0 (PStr [])) (\<lambda>number.
     bindE (field_or data 1 (PStr [])) (\<lambda>name.
     bindE (field_or data 2 (PStr [])) (\<lambda>team.
     bindE (field_or data 3 (PStr [])) (\<lambda>class_name.
     Inr (EventEntry_init number name team class_name)))))"

definition EventEntry_field_eqs :: "EventEntry \<Rightarrow> EventEntry \<Rightarrow> bool list" where
  "EventEntry_field_eqs a b =
     [ee_number a = ee_number b, ee_name a = ee_name b, ee_team a = ee_team b,
      ee_class_name a = ee_class_name b]"

subsection \<open>CarPosition\<close>

text \<open>\<^verbatim>\<open>CarPosition.INVALID_POSITION\<close>: position information is not available.\<close>

definition INVALID_POSITION :: int where
  "INVALID_POSITION = - 999"

record 'tm CarPosition =
  cp_event_id :: "pyval"  \<comment> \<open>Key 0\<close>
  cp_session_id :: "pyval"  \<comment> \<open>Key 1\<close>
  cp_number :: "pyval"  \<comment> \<open>Key 2\<close>
  cp_transponder_id :: "pyval"  \<comment> \<open>Key 3\<close>
  cp_car_class :: "pyval"  \<comment> \<open>Key 4\<close>
  cp_best_time :: "pyval"  \<comment> \<open>Key 5\<close>
  cp_best_lap :: "pyval"  \<comment> \<open>Key 6\<close>
  cp_is_best_time :: "pyval"  \<comment> \<open>Key 7\<close>
  cp_is_best_time_class :: "pyval"  \<comment> \<open>Key 8\<close>
  cp_in_class_gap :: "pyval"  \<comment> \<open>Key 9\<close>
  cp_in_class_difference :: "pyval"  \<comment> \<open>Key 10\<close>
  cp_overall_gap :: "pyval"  \<comment> \<open>Key 11\<close>
  cp_overall_difference :: "pyval"  \<comment> \<open>Key 12\<close>
  cp_total_time :: "pyval"  \<comment> \<open>Key 13\<close>
  cp_last_lap_time :: "pyval"  \<comment> \<open>Key 14\<close>
  cp_last_lap_completed :: "pyval"  \<comment> \<open>Key 15\<close>
  cp_pit_stop_count :: "pyval"  \<comment> \<open>Key 16\<close>
  cp_last_lap_pitted :: "pyval"  \<comment> \<open>Key 17\<close>
  cp_laps_led_overall :: "pyval"  \<comment> \<open>Key 18\<close>
  cp_laps_led_in_class :: "pyval"  \<comment> \<open>Key 19\<close>
  cp_overall_position :: "pyval"  \<comment> \<open>Key 20\<close>
  cp_class_position :: "pyval"  \<comment> \<open>Key 21\<close>
  cp_overall_starting_position :: "pyval"  \<comment> \<open>Key 22\<close>
  cp_overall_positions_gained :: "pyval"  \<comment> \<open>Key 23\<close>
  cp_in_class_starting_position :: "pyval"  \<comment> \<open>Key 24\<close>
  cp_in_class_positions_gained :: "pyval"  \<comment> \<open>Key 25\<close>
  cp_is_overall_most_positions_gained :: "pyval"  \<comment> \<open>Key 26\<close>
  cp_is_class_most_positions_gained :: "pyval"  \<comment> \<open>Key 27\<close>
  cp_penalty_laps :: "pyval"  \<comment> \<open>Key 28\<close>
  cp_penalty_warnings :: "pyval"  \<comment> \<open>Key 29\<close>
  cp_black_flags :: "pyval"  \<comment> \<open>Key 30\<close>
  cp_is_entered_pit :: "pyval"  \<comment> \<open>Key 31\<close>
  cp_is_pit_start_finish :: "pyval"  \<comment> \<open>Key 32\<close>
  cp_is_exited_pit :: "pyval"  \<comment> \<open>Key 33\<close>
  cp_is_in_pit :: "pyval"  \<comment> \<open>Key 34\<close>
  cp_lap_included_pit :: "pyval"  \<comment> \<open>Key 35\<close>
  cp_last_loop_name :: "pyval"  \<comment> \<open>Key 36\<close>
  cp_is_stale :: "pyval"  \<comment> \<open>Key 37\<close>
  cp_track_flag :: "Flags"  \<comment> \<open>Key 38\<close>
  cp_local_flag :: "Flags"  \<comment> \<open>Key 39\<close>
  cp_lap_had_local_flag :: "pyval"  \<comment> \<open>Key 40\<close>
  cp_completed_sections :: "CompletedSection list"  \<comment> \<open>Key 41\<close>
  cp_projected_lap_time_ms :: "pyval"  \<comment> \<open>Key 42\<close>
  cp_lap_start_time :: "'tm option"  \<comment> \<open>Key 43\<close>
  cp_driver_name :: "pyval"  \<comment> \<open>Key 44\<close>
  cp_driver_id :: "pyval"  \<comment> \<open>Key 45\<close>
  cp_in_car_video :: "VideoStatus option"  \<comment> \<open>Key 46\<close>
  cp_latitude :: "pyval"  \<comment> \<open>Key 47\<close>
  cp_longitude :: "pyval"  \<comment> \<open>Key 48\<close>
  cp_current_status :: "pyval"  \<comment> \<open>Key 49\<close>
  cp_impact_warning :: "pyval"  \<comment> \<open>Key 50\<close>

definition CarPosition_init ::
  "pyval \<Rightarrow> pyval \<Rightarrow> pyval \<Rightarrow> pyval \<Rightarrow>
   pyval \<Rightarrow> pyval \<Rightarrow> pyval \<Rightarrow> pyval \<Rightarrow>
   pyval \<Rightarrow> pyval \<Rightarrow> pyval \<Rightarrow> pyval \<Rightarrow>
   pyval \<Rightarrow> pyval \<Rightarrow> pyval \<Rightarrow> pyval \<Rightarrow>
   pyval \<Rightarrow> pyval \<Rightarrow> pyval \<Rightarrow> pyval \<Rightarrow>
   pyval \<Rightarrow> pyval \<Rightarrow> pyval \<Rightarrow> pyval \<Rightarrow>
   pyval \<Rightarrow> pyval \<Rightarrow> pyval \<Rightarrow> pyval \<Rightarrow>
   pyval \<Rightarrow> pyval \<Rightarrow> pyval \<Rightarrow> pyval \<Rightarrow>
   pyval \<Rightarrow> pyval \<Rightarrow> pyval \<Rightarrow> pyval \<Rightarrow>
   pyval \<Rightarrow> pyval \<Rightarrow> Flags \<Rightarrow> Flags \<Rightarrow>
   pyval \<Rightarrow> (CompletedSection list option) \<Rightarrow> pyval \<Rightarrow>
   ('tm option) \<Rightarrow> pyval \<Rightarrow> pyval \<Rightarrow>
   (VideoStatus option) \<Rightarrow> pyval \<Rightarrow> pyval \<Rightarrow> pyval \<Rightarrow>
   pyval \<Rightarrow> 'tm CarPosition" where
  "CarPosition_init event_id session_id number transponder_id car_class best_time best_lap
      is_best_time is_best_time_class in_class_gap in_class_difference overall_gap
      overall_difference total_time last_lap_time last_lap_completed pit_stop_count
      last_lap_pitted laps_led_overall laps_led_in_class overall_position class_position
      overall_starting_position overall_positions_gained in_class_starting_position
      in_class_positions_gained is_overall_most_positions_gained is_class_most_positions_gained
      penalty_laps penalty_warnings black_flags is_entered_pit is_pit_start_finish is_exited_pit
      is_in_pit lap_included_pit last_loop_name is_stale track_flag local_flag
      lap_had_local_flag completed_sections projected_lap_time_ms lap_start_time driver_name
      driver_id in_car_video latitude longitude current_status impact_warning =
     \<lparr>
      cp_event_id = event_id,
      cp_session_id = session_id,
      cp_number = number,
      cp_transponder_id = transponder_id,
      cp_car_class = car_class,
      cp_best_time = best_time,
      cp_best_lap = best_lap,
      cp_is_best_time = is_best_time,
      cp_is_best_time_class = is_best_time_class,
      cp_in_class_gap = in_class_gap,
      cp_in_class_difference = in_class_difference,
      cp_overall_gap = overall_gap,
      cp_overall_difference = overall_difference,
      cp_total_time = total_time,
      cp_last_lap_time = last_lap_time,
      cp_last_lap_completed = last_lap_completed,
      cp_pit_stop_count = pit_stop_count,
      cp_last_lap_pitted = last_lap_pitted,
      cp_laps_led_overall = laps_led_overall,
      cp_laps_led_in_class = laps_led_in_class,
      cp_overall_position = overall_position,
      cp_class_position = class_position,
      cp_overall_starting_position = overall_starting_position,
      cp_overall_positions_gained = overall_positions_gained,
      cp_in_class_starting_position = in_class_starting_position,
      cp_in_class_positions_gained = in_class_positions_gained,
      cp_is_overall_most_positions_gained = is_overall_most_positions_gained,
      cp_is_class_most_positions_gained = is_class_most_positions_gained,
      cp_penalty_laps = penalty_laps,
      cp_penalty_warnings = penalty_warnings,
      cp_black_flags = black_flags,
      cp_is_entered_pit = is_entered_pit,
      cp_is_pit_start_finish = is_pit_start_finish,
      cp_is_exited_pit = is_exited_pit,
      cp_is_in_pit = is_in_pit,
      cp_lap_included_pit = lap_included_pit,
      cp_last_loop_name = last_loop_name,
      cp_is_stale = is_stale,
      cp_track_flag = track_flag,
      cp_local_flag = local_flag,
      cp_lap_had_local_flag = lap_had_local_flag,
      cp_completed_sections = list_or_empty completed_sections,
      cp_projected_lap_time_ms = projected_lap_time_ms,
      cp_lap_start_time = lap_start_time,
      cp_driver_name = driver_name,
      cp_driver_id = driver_id,
      cp_in_car_video = in_car_video,
      cp_latitude = latitude,
      cp_longitude = longitude,
      cp_current_status = current_status,
      cp_impact_warning = impact_warning
     \<rparr>"

definition CarPosition_default :: "'tm CarPosition" where
  "CarPosition_default = CarPosition_init PNone PNone PNone (PInt 0) PNone PNone (PInt 0)
      (PBool False) (PBool False) PNone PNone PNone PNone PNone PNone (PInt 0) PNone PNone PNone
      PNone (PInt 0) (PInt 0) (PInt 0) (PInt INVALID_POSITION) (PInt 0) (PInt INVALID_POSITION)
      (PBool False) (PBool False) (PInt 0) (PInt 0) (PInt 0) (PBool False) (PBool False)
      (PBool False) (PBool False) (PBool False) (PStr []) (PBool False) UNKNOWN UNKNOWN PNone
      None (PInt 0) None (PStr []) (PStr []) None PNone PNone (PStr []) (PBool False)"

definition CarPosition_to_msgpack :: "('dt, 'tm) stdlib \<Rightarrow> 'tm CarPosition \<Rightarrow> pyval list" where
  "CarPosition_to_msgpack L self =
     [
      cp_event_id self,
      cp_session_id self,
      cp_number self,
      cp_transponder_id self,
      cp_car_class self,
      cp_best_time self,
      cp_best_lap self,
      cp_is_best_time self,
      cp_is_best_time_class self,
      cp_in_class_gap self,
      cp_in_class_difference self,
      cp_overall_gap self,
      cp_overall_difference self,
      cp_total_time self,
      cp_last_lap_time self,
      cp_last_lap_completed self,
      cp_pit_stop_count self,
      cp_last_lap_pitted self,
      cp_laps_led_overall self,
      cp_laps_led_in_class self,
      cp_overall_position self,
      cp_class_position self,
      cp_overall_starting_position self,
      cp_overall_positions_gained self,
      cp_in_class_starting_position self,
      cp_in_class_positions_gained self,
      cp_is_overall_most_positions_gained self,
      cp_is_class_most_positions_gained self,
      cp_penalty_laps self,
      cp_penalty_warnings self,
      cp_black_flags self,
      cp_is_entered_pit self,
      cp_is_pit_start_finish self,
      cp_is_exited_pit self,
      cp_is_in_pit self,
      cp_lap_included_pit self,
      cp_last_loop_name self,
      cp_is_stale self,
      PInt (int_of_Flags (cp_track_flag self)),
      PInt (int_of_Flags (cp_local_flag self)),
      cp_lap_had_local_flag self,
      PList (map (\<lambda>cs. PList (CompletedSection_to_msgpack cs)) (cp_completed_sections self)),
      cp_projected_lap_time_ms self,
      time_to_wire L (cp_lap_start_time self),
      cp_driver_name self,
      cp_driver_id self,
      (case cp_in_car_video self of None \<Rightarrow> PNone | Some v \<Rightarrow> PList (VideoStatus_to_msgpack v)),
      cp_latitude self,
      cp_longitude self,
      cp_current_status self,
      cp_impact_warning self
     ]"

text \<open>
  The constructor call of \<^verbatim>\<open>CarPosition.from_msgpack\<close> evaluates its 51 arguments from left
  to right, and the first exception ends it. The model evaluates the arguments for keys
  0 to 25 in \<open>CarPosition_from_msgpack\<close> and hands their values to
  \<open>CarPosition_from_msgpack_tail\<close>, which evaluates those for keys 26 to 50 and builds the
  entity.
\<close>

definition CarPosition_from_msgpack_tail ::
  "('dt, 'tm) stdlib \<Rightarrow> pyval \<Rightarrow>
   pyval \<Rightarrow> pyval \<Rightarrow> pyval \<Rightarrow> pyval \<Rightarrow>
   pyval \<Rightarrow> pyval \<Rightarrow> pyval \<Rightarrow> pyval \<Rightarrow>
   pyval \<Rightarrow> pyval \<Rightarrow> pyval \<Rightarrow> pyval \<Rightarrow>
   pyval \<Rightarrow> pyval \<Rightarrow> pyval \<Rightarrow> pyval \<Rightarrow>
   pyval \<Rightarrow> pyval \<Rightarrow> pyval \<Rightarrow> pyval \<Rightarrow>
   pyval \<Rightarrow> pyval \<Rightarrow> pyval \<Rightarrow> pyval \<Rightarrow>
   pyval \<Rightarrow> pyval \<Rightarrow>
   'tm CarPosition result" where
  "CarPosition_from_msgpack_tail L data event_id session_id number transponder_id car_class
      best_time best_lap is_best_time is_best_time_class in_class_gap in_class_difference
      overall_gap overall_difference total_time last_lap_time last_lap_completed pit_stop_count
      last_lap_pitted laps_led_overall laps_led_in_class overall_position class_position
      overall_starting_position overall_positions_gained in_class_starting_position
      in_class_positions_gained =
     bindE (field_or data 26 (PBool False)) (\<lambda>is_overall_most_positions_gained.
     bindE (field_or data 27 (PBool False)) (\<lambda>is_class_most_positions_gained.
     bindE (field_or data 28 (PInt 0)) (\<lambda>penalty_laps.
     bindE (field_or data 29 (PInt 0)) (\<lambda>penalty_warnings.
     bindE (field_or data 30 (PInt 0)) (\<lambda>black_flags.
     bindE (field_or data 31 (PBool False)) (\<lambda>is_entered_pit.
     bindE (field_or data 32 (PBool False)) (\<lambda>is_pit_start_finish.
     bindE (field_or data 33 (PBool False)) (\<lambda>is_exited_pit.
     bindE (field_or data 34 (PBool False)) (\<lambda>is_in_pit.
     bindE (field_or data 35 (PBool False)) (\<lambda>lap_included_pit.
     bindE (field_or data 36 (PStr [])) (\<lambda>last_loop_name.
     bindE (field_or data 37 (PBool False)) (\<lambda>is_stale.
     bindE (bindE (field_at data 38) (decode_or UNKNOWN Flags_call)) (\<lambda>track_flag.
     bindE (bindE (field_at data 39) (decode_or UNKNOWN Flags_call)) (\<lambda>local_flag.
     bindE (field_or data 40 PNone) (\<lambda>lap_had_local_flag.
     bindE (bindE (field_if_true data 41) (decode_or [] (decode_list CompletedSection_from_msgpack))) (\<lambda>completed_sections.
     bindE (field_or data 42 (PInt 0)) (\<lambda>projected_lap_time_ms.
     bindE (bindE (field_at data 43) (decode_or None (parse_time L))) (\<lambda>lap_start_time.
     bindE (field_or data 44 (PStr [])) (\<lambda>driver_name.
     bindE (field_or data 45 (PStr [])) (\<lambda>driver_id.
     bindE (bindE (field_if_true data 46) (decode_or None (decode_some VideoStatus_from_msgpack))) (\<lambda>in_car_video.
     bindE (field_or data 47 PNone) (\<lambda>latitude.
     bindE (field_or data 48 PNone) (\<lambda>longitude.
     bindE (field_or data 49 (PStr [])) (\<lambda>current_status.
     bindE (field_or data 50 (PBool False)) (\<lambda>impact_warning.
     Inr (CarPosition_init event_id session_id number transponder_id car_class best_time
        best_lap is_best_time is_best_time_class in_class_gap in_class_difference overall_gap
        overall_difference total_time last_lap_time last_lap_completed pit_stop_count
        last_lap_pitted laps_led_overall laps_led_in_class overall_position class_position
        overall_starting_position overall_positions_gained in_class_starting_position
        in_class_positions_gained is_overall_most_positions_gained
        is_class_most_positions_gained penalty_laps penalty_warnings black_flags is_entered_pit
        is_pit_start_finish is_exited_pit is_in_pit lap_included_pit last_loop_name is_stale
        track_flag local_flag lap_had_local_flag (Some completed_sections) projected_lap_time_ms
        lap_start_time driver_name driver_id in_car_video latitude longitude current_status
        impact_warning)
     )))))))))))))))))))))))))"

definition CarPosition_from_msgpack ::
  "('dt, 'tm) stdlib \<Rightarrow> pyval \<Rightarrow> 'tm CarPosition result" where
  "CarPosition_from_msgpack L data =
     bindE (field_or data 0 PNone) (\<lambda>event_id.
     bindE (field_or data 1 PNone) (\<lambda>session_id.
     bindE (field_or data 2 PNone) (\<lambda>number.
     bindE (field_or data 3 (PInt 0)) (\<lambda>transponder_id.
     bindE (field_or data 4 PNone) (\<lambda>car_class.
     bindE (field_or data 5 PNone) (\<lambda>best_time.
     bindE (field_or data 6 (PInt 0)) (\<lambda>best_lap.
     bindE (field_or data 7 (PBool False)) (\<lambda>is_best_time.
     bindE (field_or data 8 (PBool False)) (\<lambda>is_best_time_class.
     bindE (field_or data 9 PNone) (\<lambda>in_class_gap.
     bindE (field_or data 10 PNone) (\<lambda>in_class_difference.
     bindE (field_or data 11 PNone) (\<lambda>overall_gap.
     bindE (field_or data 12 PNone) (\<lambda>overall_difference.
     bindE (field_or data 13 PNone) (\<lambda>total_time.
     bindE (field_or data 14 PNone) (\<lambda>last_lap_time.
     bindE (field_or data 15 (PInt 0)) (\<lambda>last_lap_completed.
     bindE (field_or data 16 PNone) (\<lambda>pit_stop_count.
     bindE (field_or data 17 PNone) (\<lambda>last_lap_pitted.
     bindE (field_or data 18 PNone) (\<lambda>laps_led_overall.
     bindE (field_or data 19 PNone) (\<lambda>laps_led_in_class.
     bindE (field_or data 20 (PInt 0)) (\<lambda>overall_position.
     bindE (field_or data 21 (PInt 0)) (\<lambda>class_position.
     bindE (field_or data 22 (PInt 0)) (\<lambda>overall_starting_position.
     bindE (field_or data 23 (PInt INVALID_POSITION)) (\<lambda>overall_positions_gained.
     bindE (field_or data 24 (PInt 0)) (\<lambda>in_class_starting_position.
     bindE (field_or data 25 (PInt INVALID_POSITION)) (\<lambda>in_class_positions_gained.
     CarPosition_from_msgpack_tail L data event_id session_id number transponder_id car_class
        best_time best_lap is_best_time is_best_time_class in_class_gap in_class_difference
        overall_gap overall_difference total_time last_lap_time last_lap_completed
        pit_stop_count last_lap_pitted laps_led_overall laps_led_in_class overall_position
        class_position overall_starting_position overall_positions_gained
        in_class_starting_position in_class_positions_gained
     ))))))))))))))))))))))))))"

definition CarPosition_field_eqs :: "'tm CarPosition \<Rightarrow> 'tm CarPosition \<Rightarrow> bool list" where
  "CarPosition_field_eqs a b =
     [
      cp_event_id a = cp_event_id b,
      cp_session_id a = cp_session_id b,
      cp_number a = cp_number b,
      cp_transponder_id a = cp_transponder_id b,
      cp_car_class a = cp_car_class b,
      cp_best_time a = cp_best_time b,
      cp_best_lap a = cp_best_lap b,
      cp_is_best_time a = cp_is_best_time b,
      cp_is_best_time_class a = cp_is_best_time_class b,
      cp_in_class_gap a = cp_in_class_gap b,
      cp_in_class_difference a = cp_in_class_difference b,
      cp_overall_gap a = cp_overall_gap b,
      cp_overall_difference a = cp_overall_difference b,
      cp_total_time a = cp_total_time b,
      cp_last_lap_time a = cp_last_lap_time b,
      cp_last_lap_completed a = cp_last_lap_completed b,
      cp_pit_stop_count a = cp_pit_stop_count b,
      cp_last_lap_pitted a = cp_last_lap_pitted b,
      cp_laps_led_overall a = cp_laps_led_overall b,
      cp_laps_led_in_class a = cp_laps_led_in_class b,
      cp_overall_position a = cp_overall_position b,
      cp_class_position a = cp_class_position b,
      cp_overall_starting_position a = cp_overall_starting_position b,
      cp_overall_positions_gained a = cp_overall_positions_gained b,
      cp_in_class_starting_position a = cp_in_class_starting_position b,
      cp_in_class_positions_gained a = cp_in_class_positions_gained b,
      cp_is_overall_most_positions_gained a = cp_is_overall_most_positions_gained b,
      cp_is_class_most_positions_gained a = cp_is_class_most_positions_gained b,
      cp_penalty_laps a = cp_penalty_laps b,
      cp_penalty_warnings a = cp_penalty_warnings b,
      cp_black_flags a = cp_black_flags b,
      cp_is_entered_pit a = cp_is_entered_pit b,
      cp_is_pit_start_finish a = cp_is_pit_start_finish b,
      cp_is_exited_pit a = cp_is_exited_pit b,
      cp_is_in_pit a = cp_is_in_pit b,
      cp_lap_included_pit a = cp_lap_included_pit b,
      cp_last_loop_name a = cp_last_loop_name b,
      cp_is_stale a = cp_is_stale b,
      cp_track_flag a = cp_track_flag b,
      cp_local_flag a = cp_local_flag b,
      cp_lap_had_local_flag a = cp_lap_had_local_flag b,
      cp_completed_sections a = cp_completed_sections b,
      cp_projected_lap_time_ms a = cp_projected_lap_time_ms b,
      cp_lap_start_time a = cp_lap_start_time b,
      cp_driver_name a = cp_driver_name b,
      cp_driver_id a = cp_driver_id b,
      cp_in_car_video a = cp_in_car_video b,
      cp_latitude a = cp_latitude b,
      cp_longitude a = cp_longitude b,
      cp_current_status a = cp_current_status b,
      cp_impact_warning a = cp_impact_warning b
     ]"

subsection \<open>FlagDuration\<close>

record 'dt FlagDuration =
  fd_flag :: Flags  \<comment> \<open>Key 0\<close>
  fd_start_time :: "'dt option"  \<comment> \<open>Key 1\<close>
  fd_end_time :: "'dt option"  \<comment> \<open>Key 2\<close>

definition FlagDuration_init :: "Flags \<Rightarrow> 'dt option \<Rightarrow> 'dt option \<Rightarrow> 'dt FlagDuration" where
  "FlagDuration_init flag start_time end_time =
     \<lparr>fd_flag = flag, fd_start_time = start_time, fd_end_time = end_time\<rparr>"

definition FlagDuration_default :: "'dt FlagDuration" where
  "FlagDuration_default = FlagDuration_init UNKNOWN None None"

definition FlagDuration_to_msgpack :: "('dt, 'tm) stdlib \<Rightarrow> 'dt FlagDuration \<Rightarrow> pyval list" where
  "FlagDuration_to_msgpack L self =
     [PInt (int_of_Flags (fd_flag self)), datetime_to_wire L (fd_start_time self),
      datetime_to_wire L (fd_end_time self)]"

definition FlagDuration_from_msgpack ::
  "('dt, 'tm) stdlib \<Rightarrow> pyval \<Rightarrow> 'dt FlagDuration result" where
  "FlagDuration_from_msgpack L data =
     bindE (bindE (field_at data 0) (decode_or UNKNOWN Flags_call)) (\<lambda>flag.
     bindE (bindE (field_at data 1) (decode_or None (parse_datetime L))) (\<lambda>start_time.
     bindE (bindE (field_at data 2) (decode_or None (parse_datetime L))) (\<lambda>end_time.
     Inr (FlagDuration_init flag start_time end_time))))"

definition FlagDuration_field_eqs :: "'dt FlagDuration \<Rightarrow> 'dt FlagDuration \<Rightarrow> bool list" where
  "FlagDuration_field_eqs a b =
     [fd_flag a = fd_flag b, fd_start_time a = fd_start_time b, fd_end_time a = fd_end_time b]"

subsection \<open>Section\<close>

record Section =
  sec_name :: pyval  \<comment> \<open>Key 0\<close>
  sec_length_inches :: pyval  \<comment> \<open>Key 1\<close>
  sec_start_label :: pyval  \<comment> \<open>Key 2\<close>
  sec_end_label :: pyval  \<comment> \<open>Key 3\<close>

definition Section_init :: "pyval \<Rightarrow> pyval \<Rightarrow> pyval \<Rightarrow> pyval \<Rightarrow> Section" where
  "Section_init name length_inches start_label end_label =
     \<lparr>sec_name = name, sec_length_inches = length_inches, sec_start_label = start_label,
      sec_end_label = end_label\<rparr>"

definition Section_default :: Section where
  "Section_default = Section_init (PStr []) (PInt 0) (PStr []) (PStr [])"

definition Section_to_msgpack :: "Section \<Rightarrow> pyval list" where
  "Section_to_msgpack self =
     [sec_name self, sec_length_inches self, sec_start_label self, sec_end_label self]"

definition Section_from_msgpack :: "pyval \<Rightarrow> Section result" where
  "Section_from_msgpack data =
     bindE (field_or data 0 (PStr [])) (\<lambda>name.
     bindE (field_or data 1 (PInt 0)) (\<lambda>length_inches.
     bindE (field_or data 2 (PStr [])) (\<lambda>start_label.
     bindE (field_or data 3 (PStr [])) (\<lambda>end_label.
     Inr (Section_init name length_inches start_label end_label)))))"

definition Section_field_eqs :: "Section \<Rightarrow> Section \<Rightarrow> bool list" where
  "Section_field_eqs a b =
     [sec_name a = sec_name b, sec_length_inches a = sec_length_inches b,
      sec_start_label a = sec_start_label b, sec_end_label a = sec_end_label b]"

subsection \<open>Announcement\<close>

record 'dt Announcement =
  ann_timestamp :: "'dt option"  \<comment> \<open>Key 0\<close>
  ann_priority :: pyval  \<comment> \<open>Key 1\<close>
  ann_text :: pyval  \<comment> \<open>Key 2\<close>

definition Announcement_init :: "'dt option \<Rightarrow> pyval \<Rightarrow> pyval \<Rightarrow> 'dt Announcement" where
  "Announcement_init timestamp priority text =
     \<lparr>ann_timestamp = timestamp, ann_priority = priority, ann_text = text\<rparr>"

definition Announcement_default :: "'dt Announcement" where
  "Announcement_default = Announcement_init None (PStr []) (PStr [])"

definition Announcement_to_msgpack :: "('dt, 'tm) stdlib \<Rightarrow> 'dt Announcement \<Rightarrow> pyval list" where
  "Announcement_to_msgpack L self =
     [datetime_to_wire L (ann_timestamp self), ann_priority self, ann_text self]"

definition Announcement_from_msgpack ::
  "('dt, 'tm) stdlib \<Rightarrow> pyval \<Rightarrow> 'dt Announcement result" where
  "Announcement_from_msgpack L data =
     bindE (bindE (field_at data 0) (decode_or None (parse_datetime L))) (\<lambda>timestamp.
     bindE (field_or data 1 (PStr [])) (\<lambda>priority.
     bindE (field_or data 2 (PStr [])) (\<lambda>text.
     Inr (Announcement_init timestamp priority text))))"

definition Announcement_field_eqs :: "'dt Announcement \<Rightarrow> 'dt Announcement \<Rightarrow> bool list" where
  "Announcement_field_eqs a b =
     [ann_timestamp a = ann_timestamp b, ann_priority a = ann_priority b,
      ann_text a = ann_text b]"

subsection \<open>SessionState\<close>

record ('dt, 'tm) SessionState =
  ss_event_id :: "pyval"  \<comment> \<open>Key 0\<close>
  ss_event_name :: "pyval"  \<comment> \<open>Key 1\<close>
  ss_session_id :: "pyval"  \<comment> \<open>Key 2\<close>
  ss_session_name :: "pyval"  \<comment> \<open>Key 3\<close>
  ss_laps_to_go :: "pyval"  \<comment> \<open>Key 4\<close>
  ss_time_to_go :: "pyval"  \<comment> \<open>Key 5\<close>
  ss_local_time_of_day :: "pyval"  \<comment> \<open>Key 6\<close>
  ss_running_race_time :: "pyval"  \<comment> \<open>Key 7\<close>
  ss_is_practice_qualifying :: "pyval"  \<comment> \<open>Key 8\<close>
  ss_session_start_time :: "'dt option"  \<comment> \<open>Key 9\<close>
  ss_session_end_time :: "'dt option"  \<comment> \<open>Key 10\<close>
  ss_local_time_zone_offset :: "pyval"  \<comment> \<open>Key 11\<close>
  ss_is_live :: "pyval"  \<comment> \<open>Key 12\<close>
  ss_event_entries :: "EventEntry list"  \<comment> \<open>Key 13\<close>
  ss_car_positions :: "'tm CarPosition list"  \<comment> \<open>Key 14\<close>
  ss_current_flag :: "Flags"  \<comment> \<open>Key 15\<close>
  ss_flag_durations :: "'dt FlagDuration list"  \<comment> \<open>Key 16\<close>
  ss_green_time_ms :: "pyval"  \<comment> \<open>Key 17\<close>
  ss_green_laps :: "pyval"  \<comment> \<open>Key 18\<close>
  ss_yellow_time_ms :: "pyval"  \<comment> \<open>Key 19\<close>
  ss_yellow_laps :: "pyval"  \<comment> \<open>Key 20\<close>
  ss_number_of_yellows :: "pyval"  \<comment> \<open>Key 21\<close>
  ss_red_time_ms :: "pyval"  \<comment> \<open>Key 22\<close>
  ss_average_race_speed :: "pyval"  \<comment> \<open>Key 23\<close>
  ss_lead_changes :: "pyval"  \<comment> \<open>Key 24\<close>
  ss_sections :: "Section list"  \<comment> \<open>Key 25\<close>
  ss_class_colors :: "pyval"  \<comment> \<open>Key 26\<close>
  ss_announcements :: "'dt Announcement list"  \<comment> \<open>Key 27\<close>
  ss_last_updated :: "'dt option"  \<comment> \<open>Key 28\<close>

definition SessionState_init ::
  "pyval \<Rightarrow> pyval \<Rightarrow> pyval \<Rightarrow> pyval \<Rightarrow>
   pyval \<Rightarrow> pyval \<Rightarrow> pyval \<Rightarrow> pyval \<Rightarrow>
   pyval \<Rightarrow> ('dt option) \<Rightarrow> ('dt option) \<Rightarrow> pyval \<Rightarrow>
   pyval \<Rightarrow> (EventEntry list option) \<Rightarrow>
   ('tm CarPosition list option) \<Rightarrow> Flags \<Rightarrow>
   ('dt FlagDuration list option) \<Rightarrow> pyval \<Rightarrow> pyval \<Rightarrow>
   pyval \<Rightarrow> pyval \<Rightarrow> pyval \<Rightarrow> pyval \<Rightarrow>
   pyval \<Rightarrow> pyval \<Rightarrow> (Section list option) \<Rightarrow> pyval \<Rightarrow>
   ('dt Announcement list option) \<Rightarrow> ('dt option) \<Rightarrow> ('dt, 'tm) SessionState" where
  "SessionState_init event_id event_name session_id session_name laps_to_go time_to_go
      local_time_of_day running_race_time is_practice_qualifying session_start_time
      session_end_time local_time_zone_offset is_live event_entries car_positions current_flag
      flag_durations green_time_ms green_laps yellow_time_ms yellow_laps number_of_yellows
      red_time_ms average_race_speed lead_changes sections class_colors announcements
      last_updated =
     \<lparr>
      ss_event_id = event_id,
      ss_event_name = event_name,
      ss_session_id = session_id,
      ss_session_name = session_name,
      ss_laps_to_go = laps_to_go,
      ss_time_to_go = time_to_go,
      ss_local_time_of_day = local_time_of_day,
      ss_running_race_time = running_race_time,
      ss_is_practice_qualifying = is_practice_qualifying,
      ss_session_start_time = session_start_time,
      ss_session_end_time = session_end_time,
      ss_local_time_zone_offset = local_time_zone_offset,
      ss_is_live = is_live,
      ss_event_entries = list_or_empty event_entries,
      ss_car_positions = list_or_empty car_positions,
      ss_current_flag = current_flag,
      ss_flag_durations = list_or_empty flag_durations,
      ss_green_time_ms = green_time_ms,
      ss_green_laps = green_laps,
      ss_yellow_time_ms = yellow_time_ms,
      ss_yellow_laps = yellow_laps,
      ss_number_of_yellows = number_of_yellows,
      ss_red_time_ms = red_time_ms,
      ss_average_race_speed = average_race_speed,
      ss_lead_changes = lead_changes,
      ss_sections = list_or_empty sections,
      ss_class_colors = py_or class_colors (PDict []),
      ss_announcements = list_or_empty announcements,
      ss_last_updated = last_updated
     \<rparr>"

definition SessionState_default :: "('dt, 'tm) SessionState" where
  "SessionState_default = SessionState_init (PInt 0) (PStr []) (PInt 0) (PStr []) (PInt 0)
      (PStr []) (PStr []) (PStr []) (PBool False) None None (PFloat 0) (PBool False) None None
      UNKNOWN None PNone PNone PNone PNone PNone PNone PNone PNone None PNone None None"

definition SessionState_to_msgpack_dict ::
  "('dt, 'tm) stdlib \<Rightarrow> ('dt, 'tm) SessionState \<Rightarrow> (pyval \<times> pyval) list" where
  "SessionState_to_msgpack_dict L self =
     [
      (PInt 0, ss_event_id self),
      (PInt 1, ss_event_name self),
      (PInt 2, ss_session_id self),
      (PInt 3, ss_session_name self),
      (PInt 4, ss_laps_to_go self),
      (PInt 5, ss_time_to_go self),
      (PInt 6, ss_local_time_of_day self),
      (PInt 7, ss_running_race_time self),
      (PInt 8, ss_is_practice_qualifying self),
      (PInt 9, datetime_to_wire L (ss_session_start_time self)),
      (PInt 10, datetime_to_wire L (ss_session_end_time self)),
      (PInt 11, ss_local_time_zone_offset self),
      (PInt 12, ss_is_live self),
      (PInt 13, PList (map (\<lambda>x. PList (EventEntry_to_msgpack x)) (ss_event_entries self))),
      (PInt 14, PList (map (\<lambda>x. PList (CarPosition_to_msgpack L x)) (ss_car_positions self))),
      (PInt 15, PInt (int_of_Flags (ss_current_flag self))),
      (PInt 16, PList (map (\<lambda>x. PList (FlagDuration_to_msgpack L x)) (ss_flag_durations self))),
      (PInt 17, ss_green_time_ms self),
      (PInt 18, ss_green_laps self),
      (PInt 19, ss_yellow_time_ms self),
      (PInt 20, ss_yellow_laps self),
      (PInt 21, ss_number_of_yellows self),
      (PInt 22, ss_red_time_ms self),
      (PInt 23, ss_average_race_speed self),
      (PInt 24, ss_lead_changes self),
      (PInt 25, PList (map (\<lambda>x. PList (Section_to_msgpack x)) (ss_sections self))),
      (PInt 26, ss_class_colors self),
      (PInt 27, PList (map (\<lambda>x. PList (Announcement_to_msgpack L x)) (ss_announcements self))),
      (PInt 28, datetime_to_wire L (ss_last_updated self))
     ]"

definition SessionState_from_msgpack_dict ::
  "('dt, 'tm) stdlib \<Rightarrow> (pyval \<times> pyval) list \<Rightarrow> ('dt, 'tm) SessionState result" where
  "SessionState_from_msgpack_dict L data =
     bindE (Inr (dict_get_default data 0 (PInt 0))) (\<lambda>event_id.
     bindE (Inr (dict_get_default data 1 (PStr []))) (\<lambda>event_name.
     bindE (Inr (dict_get_default data 2 (PInt 0))) (\<lambda>session_id.
     bindE (Inr (dict_get_default data 3 (PStr []))) (\<lambda>session_name.
     bindE (Inr (dict_get_default data 4 (PInt 0))) (\<lambda>laps_to_go.
     bindE (Inr (dict_get_default data 5 (PStr []))) (\<lambda>time_to_go.
     bindE (Inr (dict_get_default data 6 (PStr []))) (\<lambda>local_time_of_day.
     bindE (Inr (dict_get_default data 7 (PStr []))) (\<lambda>running_race_time.
     bindE (Inr (dict_get_default data 8 (PBool False))) (\<lambda>is_practice_qualifying.
     bindE (parse_datetime L (dict_get_default data 9 PNone)) (\<lambda>session_start_time.
     bindE (parse_datetime L (dict_get_default data 10 PNone)) (\<lambda>session_end_time.
     bindE (Inr (dict_get_default data 11 (PFloat 0))) (\<lambda>local_time_zone_offset.
     bindE (Inr (dict_get_default data 12 (PBool False))) (\<lambda>is_live.
     bindE (decode_list (EventEntry_from_msgpack) (dict_get_default data 13 (PList []))) (\<lambda>event_entries.
     bindE (decode_list (CarPosition_from_msgpack L) (dict_get_default data 14 (PList []))) (\<lambda>car_positions.
     bindE (Flags_call (dict_get_default data 15 (PInt 0))) (\<lambda>current_flag.
     bindE (decode_list (FlagDuration_from_msgpack L) (dict_get_default data 16 (PList []))) (\<lambda>flag_durations.
     bindE (Inr (dict_get_default data 17 PNone)) (\<lambda>green_time_ms.
     bindE (Inr (dict_get_default data 18 PNone)) (\<lambda>green_laps.
     bindE (Inr (dict_get_default data 19 PNone)) (\<lambda>yellow_time_ms.
     bindE (Inr (dict_get_default data 20 PNone)) (\<lambda>yellow_laps.
     bindE (Inr (dict_get_default data 21 PNone)) (\<lambda>number_of_yellows.
     bindE (Inr (dict_get_default data 22 PNone)) (\<lambda>red_time_ms.
     bindE (Inr (dict_get_default data 23 PNone)) (\<lambda>average_race_speed.
     bindE (Inr (dict_get_default data 24 PNone)) (\<lambda>lead_changes.
     bindE (decode_list (Section_from_msgpack) (dict_get_default data 25 (PList []))) (\<lambda>sections.
     bindE (Inr (dict_get_default data 26 (PDict []))) (\<lambda>class_colors.
     bindE (decode_list (Announcement_from_msgpack L) (dict_get_default data 27 (PList []))) (\<lambda>announcements.
     bindE (parse_datetime L (dict_get_default data 28 PNone)) (\<lambda>last_updated.
     Inr (SessionState_init event_id event_name session_id session_name laps_to_go time_to_go
        local_time_of_day running_race_time is_practice_qualifying session_start_time
        session_end_time local_time_zone_offset is_live (Some event_entries)
        (Some car_positions) current_flag (Some flag_durations) green_time_ms green_laps
        yellow_time_ms yellow_laps number_of_yellows red_time_ms average_race_speed lead_changes
        (Some sections) class_colors (Some announcements) last_updated)
     )))))))))))))))))))))))))))))"

definition SessionState_field_eqs ::
  "('dt, 'tm) SessionState \<Rightarrow> ('dt, 'tm) SessionState \<Rightarrow> bool list" where
  "SessionState_field_eqs a b =
     [
      ss_event_id a = ss_event_id b,
      ss_event_name a = ss_event_name b,
      ss_session_id a = ss_session_id b,
      ss_session_name a = ss_session_name b,
      ss_laps_to_go a = ss_laps_to_go b,
      ss_time_to_go a = ss_time_to_go b,
      ss_local_time_of_day a = ss_local_time_of_day b,
      ss_running_race_time a = ss_running_race_time b,
      ss_is_practice_qualifying a = ss_is_practice_qualifying b,
      ss_session_start_time a = ss_session_start_time b,
      ss_session_end_time a = ss_session_end_time b,
      ss_local_time_zone_offset a = ss_local_time_zone_offset b,
      ss_is_live a = ss_is_live b,
      ss_event_entries a = ss_event_entries b,
      ss_car_positions a = ss_car_positions b,
      ss_current_flag a = ss_current_flag b,
      ss_flag_durations a = ss_flag_durations b,
      ss_green_time_ms a = ss_green_time_ms b,
      ss_green_laps a = ss_green_laps b,
      ss_yellow_time_ms a = ss_yellow_time_ms b,
      ss_yellow_laps a = ss_yellow_laps b,
      ss_number_of_yellows a = ss_number_of_yellows b,
      ss_red_time_ms a = ss_red_time_ms b,
      ss_average_race_speed a = ss_average_race_speed b,
      ss_lead_changes a = ss_lead_changes b,
      ss_sections a = ss_sections b,
      ss_class_colors a = ss_class_colors b,
      ss_announcements a = ss_announcements b,
      ss_last_updated a = ss_last_updated b
     ]"

section \<open>Array form and map form\<close>

text \<open>
  \<^verbatim>\<open>get_current_session_state\<close> of \<^verbatim>\<open>main.py\<close> turns an array payload into a dict with
  \<^verbatim>\<open>{i: raw_data[i] for i in range(len(raw_data))}\<close>.
\<close>

definition data_dict :: "pyval list \<Rightarrow> (pyval \<times> pyval) list" where
  "data_dict raw_data = map (\<lambda>i. (PInt (int i), raw_data ! i)) [0..<length raw_data]"

text \<open>
  The decoding step of \<^verbatim>\<open>get_current_session_state\<close>, from the unpacked payload to the
  \<^verbatim>\<open>SessionState\<close>: a dict is decoded as it is, a list through \<open>data_dict\<close>, and
  anything else raises \<^verbatim>\<open>ValueError("Unexpected MessagePack format")\<close>.
\<close>

definition get_current_session_state_decode ::
  "('dt, 'tm) stdlib \<Rightarrow> pyval \<Rightarrow> ('dt, 'tm) SessionState result" where
  "get_current_session_state_decode L raw_data =
     (case raw_data of
        PDict d \<Rightarrow> SessionState_from_msgpack_dict L d
      | PList xs \<Rightarrow> SessionState_from_msgpack_dict L (data_dict xs)
      | _ \<Rightarrow> Inl UnexpectedFormat)"

text \<open>
  The handlers of \<^verbatim>\<open>signalr_client.py\<close> normalise a patch the same way:
  \<^verbatim>\<open>car_dict = {i: v for i, v in enumerate(car_data)}\<close> for a list, the dict itself for a
  dict; any other shape is reported and skipped.
\<close>

definition car_dict :: "pyval \<Rightarrow> (pyval \<times> pyval) list option" where
  "car_dict car_data =
     (case car_data of
        PList xs \<Rightarrow> Some (map (\<lambda>iv. (PInt (int (fst iv)), snd iv)) (enumerate 0 xs))
      | PDict d \<Rightarrow> Some d
      | _ \<Rightarrow> None)"


section \<open>Patch reconciliation\<close>





section \<open>Well-typed wire values\<close>

text \<open>
  What the decoders need of the positions they interpret: an enum code within the
  members' range, an ISO string (or null) for a time or a datetime, an array of arrays
  for a sequence of records, an array (or null) for an optional nested record. The positions
  that are stored as they are need nothing.
\<close>

definition is_enum_code :: "int \<Rightarrow> pyval \<Rightarrow> bool" where
  "is_enum_code hi v = (case v of PInt k \<Rightarrow> 0 \<le> k \<and> k \<le> hi | _ \<Rightarrow> False)"

definition wt_datetime :: "('dt, 'tm) stdlib \<Rightarrow> pyval \<Rightarrow> bool" where
  "wt_datetime L v =
     (case v of PNone \<Rightarrow> True | PStr s \<Rightarrow> datetime_fromisoformat L s \<noteq> None | _ \<Rightarrow> False)"

definition wt_time :: "('dt, 'tm) stdlib \<Rightarrow> pyval \<Rightarrow> bool" where
  "wt_time L v =
     (case v of PNone \<Rightarrow> True | PStr s \<Rightarrow> time_fromisoformat L s \<noteq> None | _ \<Rightarrow> False)"

definition wt_record :: "(pyval list \<Rightarrow> bool) \<Rightarrow> pyval \<Rightarrow> bool" where
  "wt_record wt v = (case v of PList xs \<Rightarrow> wt xs | _ \<Rightarrow> False)"

definition wt_optional :: "(pyval list \<Rightarrow> bool) \<Rightarrow> pyval \<Rightarrow> bool" where
  "wt_optional wt v = (case v of PNone \<Rightarrow> True | PList xs \<Rightarrow> wt xs | _ \<Rightarrow> False)"

definition wt_sequence :: "(pyval list \<Rightarrow> bool) \<Rightarrow> pyval \<Rightarrow> bool" where
  "wt_sequence wt v = (case v of PList xs \<Rightarrow> list_all (wt_record wt) xs | _ \<Rightarrow> False)"

text \<open>The condition \<open>P\<close> on position \<open>i\<close> of an array, when the array has one.\<close>

definition at_index :: "pyval list \<Rightarrow> nat \<Rightarrow> (pyval \<Rightarrow> bool) \<Rightarrow> bool" where
  "at_index xs i P = (i < length xs \<longrightarrow> P (xs ! i))"

definition wt_plain :: "pyval list \<Rightarrow> bool" where
  "wt_plain xs = True"

definition wt_VideoDestination :: "pyval list \<Rightarrow> bool" where
  "wt_VideoDestination xs = at_index xs 0 (is_enum_code 4)"

definition wt_VideoStatus :: "pyval list \<Rightarrow> bool" where
  "wt_VideoStatus xs =
     (at_index xs 0 (is_enum_code 4) \<and> at_index xs 1 (wt_optional wt_VideoDestination))"

definition wt_CarPosition :: "('dt, 'tm) stdlib \<Rightarrow> pyval list \<Rightarrow> bool" where
  "wt_CarPosition L xs =
     (at_index xs 38 (is_enum_code 7) \<and> at_index xs 39 (is_enum_code 7) \<and>
      at_index xs 41 (\<lambda>v. v = PNone \<or> wt_sequence wt_plain v) \<and>
      at_index xs 43 (wt_time L) \<and>
      at_index xs 46 (wt_optional wt_VideoStatus))"

definition wt_FlagDuration :: "('dt, 'tm) stdlib \<Rightarrow> pyval list \<Rightarrow> bool" where
  "wt_FlagDuration L xs =
     (at_index xs 0 (is_enum_code 7) \<and> at_index xs 1 (wt_datetime L) \<and>
      at_index xs 2 (wt_datetime L))"

definition wt_Announcement :: "('dt, 'tm) stdlib \<Rightarrow> pyval list \<Rightarrow> bool" where
  "wt_Announcement L xs = at_index xs 0 (wt_datetime L)"

definition wt_SessionState :: "('dt, 'tm) stdlib \<Rightarrow> pyval list \<Rightarrow> bool" where
  "wt_SessionState L xs =
     (at_index xs 9 (wt_datetime L) \<and> at_index xs 10 (wt_datetime L) \<and>
      at_index xs 13 (wt_sequence wt_plain) \<and>
      at_index xs 14 (wt_sequence (wt_CarPosition L)) \<and>
      at_index xs 15 (is_enum_code 7) \<and>
      at_index xs 16 (wt_sequence (wt_FlagDuration L)) \<and>
      at_index xs 25 (wt_sequence wt_plain) \<and>
      at_index xs 27 (wt_sequence (wt_Announcement L)) \<and>
      at_index xs 28 (wt_datetime L))"

text \<open>
  Two entities agree from position \<open>k\<close> on: \<open>bs\<close> is the list of their field equalities,
  in index order (\<open>_field_eqs\<close>).
\<close>

definition agree_from :: "nat \<Rightarrow> bool list \<Rightarrow> bool" where
  "agree_from k bs = (\<forall>i < length bs. k \<le> i \<longrightarrow> bs ! i)"

text \<open>
  The library round trip that the encoders rely on: \<^verbatim>\<open>fromisoformat\<close> reads back what
  \<^verbatim>\<open>isoformat\<close> wrote.
\<close>

definition isoformat_roundtrip :: "('dt, 'tm) stdlib \<Rightarrow> bool" where
  "isoformat_roundtrip L =
     ((\<forall>d. datetime_fromisoformat L (datetime_isoformat L d) = Some d) \<and>
      (\<forall>t. time_fromisoformat L (time_isoformat L t) = Some t))"

text \<open>\<^verbatim>\<open>isinstance(v, dict)\<close> and \<^verbatim>\<open>isinstance(v, list)\<close>.\<close>

definition is_dict :: "pyval \<Rightarrow> bool" where
  "is_dict v = (case v of PDict kvs \<Rightarrow> True | _ \<Rightarrow> False)"

definition is_list :: "pyval \<Rightarrow> bool" where
  "is_list v = (case v of PList xs \<Rightarrow> True | _ \<Rightarrow> False)"

text \<open>
  A stand-in for the standard library, to run the decoders on concrete inputs: a
  datetime or a time is represented by its ISO text, every string parses, and
  \<^verbatim>\<open>fromtimestamp\<close> raises.
\<close>

definition text_stdlib :: "(string, string) stdlib" where
  "text_stdlib =
     \<lparr>datetime_fromisoformat = Some, datetime_fromtimestamp = (\<lambda>v. None),
      datetime_isoformat = (\<lambda>d. d), time_fromisoformat = Some, time_isoformat = (\<lambda>t. t)\<rparr>"


section \<open>Notions used in the statements\<close>

text \<open>The computation raises an exception.\<close>

definition raises :: "'a result \<Rightarrow> bool" where
  "raises m = (case m of Inl e \<Rightarrow> True | Inr x \<Rightarrow> False)"

text \<open>
  The payload was taken for a session: the result is not the \<^verbatim>\<open>ValueError\<close> that
  \<^verbatim>\<open>get_current_session_state\<close> raises for an unexpected MessagePack format.
\<close>

definition accepted :: "'a result \<Rightarrow> bool" where
  "accepted m = (m \<noteq> Inl UnexpectedFormat)"

text \<open>\<open>R\<close> holds of every element of the list and its position, counted from \<open>j\<close>.\<close>

definition each_from :: "nat \<Rightarrow> (nat \<Rightarrow> 'a \<Rightarrow> bool) \<Rightarrow> 'a list \<Rightarrow> bool" where
  "each_from j R xs = (\<forall>i < length xs. R (j + i) (xs ! i))"

section \<open>Basic facts about the helpers\<close>

lemma field_at_PList [simp]:
  "field_at (PList xs) i = Inr (if i < length xs then Some (xs ! i) else None)"
  by (simp add: field_at_def)

lemma field_or_PList [simp]:
  "field_or (PList xs) i d = Inr (if i < length xs then xs ! i else d)"
  by (simp add: field_or_def)

lemma field_if_true_PList [simp]:
  "field_if_true (PList xs) i =
     Inr (if i < length xs \<and> truthy (xs ! i) then Some (xs ! i) else None)"
  by (simp add: field_if_true_def)

lemma decode_or_simps [simp]:
  "decode_or d f None = Inr d" "decode_or d f (Some x) = f x"
  by (simp_all add: decode_or_def)

lemma decode_list_PList [simp]: "decode_list f (PList xs) = mapE f xs"
  by (simp add: decode_list_def)

section \<open>Decoding a sparse session map\<close>

text \<open>
  C7. Decoding the integer-keyed map \<^verbatim>\<open>{0: 2, 1: "Test Race", 15: 1}\<close> succeeds and yields
  the default session with \<^verbatim>\<open>event_id = 2\<close>, \<^verbatim>\<open>event_name = "Test Race"\<close> and
  \<^verbatim>\<open>current_flag = GREEN\<close> (the member of value 1); in particular \<^verbatim>\<open>laps_to_go\<close> is 0
  and \<^verbatim>\<open>event_entries\<close> is the empty list.
\<close>

theorem sparse_session_map_decodes_with_defaults:
  "\<exists>s. SessionState_from_msgpack_dict L
          [(PInt 0, PInt 2), (PInt 1, PStr ''Test Race''), (PInt 15, PInt 1)] = Inr s
     \<and> s = SessionState_default
              \<lparr>ss_event_id := PInt 2, ss_event_name := PStr ''Test Race'',
               ss_current_flag := GREEN\<rparr>
     \<and> ss_laps_to_go s = PInt 0 \<and> ss_event_entries s = []
     \<and> ss_current_flag s = GREEN \<and> int_of_Flags (ss_current_flag s) = 1"
  by (simp add: SessionState_from_msgpack_dict_def SessionState_default_def SessionState_init_def
       dict_get_default_def Flags_call_def Flags_of_int_def list_or_empty_def py_or_def)


section \<open>Sequencing, and statements made position by position\<close>

lemma bindE_case: "bindE m f = (case m of Inl e \<Rightarrow> Inl e | Inr x \<Rightarrow> f x)"
  by (cases m) simp_all

lemma bindE_eq_Inr: "bindE m f = Inr y \<longleftrightarrow> (\<exists>x. m = Inr x \<and> f x = Inr y)"
  by (cases m) simp_all

lemma each_from_Nil: "each_from j R [] = True"
  by (simp add: each_from_def)

lemma each_from_Cons: "each_from j R (x # xs) = (R j x \<and> each_from (j + 1) R xs)"
  unfolding each_from_def by (auto simp: less_Suc_eq_0_disj)

lemma each_from_Cons_0: "each_from 0 R (x # xs) = (R 0 x \<and> each_from (Suc 0) R xs)"
  by (simp add: each_from_Cons)

lemma each_from_Cons_1: "each_from (Suc 0) R (x # xs) = (R (Suc 0) x \<and> each_from 2 R xs)"
  by (simp add: each_from_Cons numeral_2_eq_2)

lemma each_from_Cons_numeral:
  "each_from (numeral n) R (x # xs) = (R (numeral n) x \<and> each_from (numeral (n + Num.One)) R xs)"
  by (simp add: each_from_Cons)

lemmas each_from_unfold = each_from_Cons_0 each_from_Cons_1 each_from_Cons_numeral each_from_Nil

lemma agree_from_each: "agree_from k bs = each_from 0 (\<lambda>i b. k \<le> i \<longrightarrow> b) bs"
  by (simp add: agree_from_def each_from_def)

lemmas agree_from_unfold = agree_from_each each_from_unfold


section \<open>Well-typed arrays decode, with defaults beyond their length\<close>

lemma Flags_call_ok: "is_enum_code 7 v \<Longrightarrow> \<exists>f. Flags_call v = Inr f"
  by (auto simp: is_enum_code_def Flags_call_def Flags_of_int_def split: pyval.splits)

lemma VideoSystemType_call_ok: "is_enum_code 4 v \<Longrightarrow> \<exists>f. VideoSystemType_call v = Inr f"
  by (auto simp: is_enum_code_def VideoSystemType_call_def VideoSystemType_of_int_def split: pyval.splits)

lemma VideoDestinationType_call_ok: "is_enum_code 4 v \<Longrightarrow> \<exists>f. VideoDestinationType_call v = Inr f"
  by (auto simp: is_enum_code_def VideoDestinationType_call_def VideoDestinationType_of_int_def split: pyval.splits)

lemma parse_time_ok: "wt_time L v \<Longrightarrow> \<exists>t. parse_time L v = Inr t"
  by (auto simp: wt_time_def split: pyval.splits)

lemma parse_datetime_ok: "wt_datetime L v \<Longrightarrow> \<exists>t. parse_datetime L v = Inr t"
  by (auto simp: wt_datetime_def split: pyval.splits)

text \<open>
  A decoder applied to an optional position succeeds when it succeeds on the value that
  is there.
\<close>

lemma decode_or_ok:
  assumes "c \<Longrightarrow> \<exists>y. f x = Inr y"
  shows "\<exists>y. decode_or d f (if c then Some x else None) = Inr y \<and> (\<not> c \<longrightarrow> y = d)"
  using assms by (cases c) auto

lemma mapE_ok:
  assumes "\<And>x. x \<in> set xs \<Longrightarrow> \<exists>y. f x = Inr y"
  shows "\<exists>ys. mapE f xs = Inr ys"
  using assms
proof (induction xs)
  case Nil
  then show ?case by simp
next
  case (Cons x xs)
  then obtain y ys where "f x = Inr y" "mapE f xs = Inr ys"
    by (meson list.set_intros)
  then show ?case by simp
qed

lemma decode_sequence_ok:
  assumes "\<And>xs. wt xs \<Longrightarrow> \<exists>y. f (PList xs) = Inr y" and "wt_sequence wt v"
  shows "\<exists>ys. decode_list f v = Inr ys"
proof -
  from assms(2) obtain xs where v: "v = PList xs" and all: "list_all (wt_record wt) xs"
    by (auto simp: wt_sequence_def split: pyval.splits)
  have "\<exists>y. f x = Inr y" if "x \<in> set xs" for x
  proof -
    from all that have "wt_record wt x" by (simp add: list_all_iff)
    then obtain zs where "x = PList zs" "wt zs"
      by (auto simp: wt_record_def split: pyval.splits)
    with assms(1) show ?thesis by simp
  qed
  then show ?thesis unfolding v by (simp add: mapE_ok)
qed

lemma CompletedSection_from_msgpack_ok: "\<exists>c. CompletedSection_from_msgpack (PList xs) = Inr c"
  by (simp add: CompletedSection_from_msgpack_def)

lemma decode_field_ok:
  assumes "i < length xs \<Longrightarrow> \<exists>y. f (xs ! i) = Inr y"
  shows "\<exists>y. bindE (field_at (PList xs) i) (decode_or d f) = Inr y \<and> (length xs \<le> i \<longrightarrow> y = d)"
  using assms by (cases "i < length xs") auto

lemma decode_field_if_true_ok:
  assumes "i < length xs \<Longrightarrow> truthy (xs ! i) \<Longrightarrow> \<exists>y. f (xs ! i) = Inr y"
  shows "\<exists>y. bindE (field_if_true (PList xs) i) (decode_or d f) = Inr y \<and>
             (length xs \<le> i \<or> \<not> truthy (xs ! i) \<longrightarrow> y = d)"
  using assms by (cases "i < length xs \<and> truthy (xs ! i)") auto


lemma VideoDestination_default_fill:
  assumes "wt_VideoDestination xs"
  shows "\<exists>d. VideoDestination_from_msgpack (PList xs) = Inr d \<and>
             agree_from (length xs) (VideoDestination_field_eqs d VideoDestination_default)"
proof -
  from assms have "0 < length xs \<Longrightarrow> \<exists>y. VideoDestinationType_call (xs ! 0) = Inr y"
    by (simp add: wt_VideoDestination_def at_index_def VideoDestinationType_call_ok)
  from decode_field_ok [of 0 xs VideoDestinationType_call VDT_NONE, OF this]
  obtain y where "bindE (field_at (PList xs) 0) (decode_or VDT_NONE VideoDestinationType_call) = Inr y"
    and "length xs \<le> 0 \<longrightarrow> y = VDT_NONE"
    by blast
  then show ?thesis
    by (simp add: VideoDestination_from_msgpack_def VideoDestination_field_eqs_def
          VideoDestination_default_def VideoDestination_init_def agree_from_unfold)
qed

lemma VideoDestination_from_msgpack_ok:
  "wt_VideoDestination xs \<Longrightarrow> \<exists>d. VideoDestination_from_msgpack (PList xs) = Inr d"
  using VideoDestination_default_fill by blast

lemma VideoStatus_default_fill:
  assumes "wt_VideoStatus xs"
  shows "\<exists>s. VideoStatus_from_msgpack (PList xs) = Inr s \<and>
             agree_from (length xs) (VideoStatus_field_eqs s VideoStatus_default)"
proof -
  from assms have "0 < length xs \<Longrightarrow> \<exists>y. VideoSystemType_call (xs ! 0) = Inr y"
    by (simp add: wt_VideoStatus_def at_index_def VideoSystemType_call_ok)
  from decode_field_ok [of 0 xs VideoSystemType_call VST_NONE, OF this]
  obtain y where y: "bindE (field_at (PList xs) 0) (decode_or VST_NONE VideoSystemType_call) = Inr y"
    "length xs \<le> 0 \<longrightarrow> y = VST_NONE"
    by blast
  have "1 < length xs \<Longrightarrow> truthy (xs ! 1) \<Longrightarrow> \<exists>d. VideoDestination_from_msgpack (xs ! 1) = Inr d"
    using assms
    by (auto simp: wt_VideoStatus_def at_index_def wt_optional_def
          VideoDestination_from_msgpack_ok split: pyval.splits)
  from decode_field_if_true_ok [of 1 xs VideoDestination_from_msgpack VideoDestination_default,
      OF this]
  obtain d where d: "bindE (field_if_true (PList xs) 1)
                       (decode_or VideoDestination_default VideoDestination_from_msgpack) = Inr d"
    "length xs \<le> 1 \<or> \<not> truthy (xs ! 1) \<longrightarrow> d = VideoDestination_default"
    by blast
  have "VideoStatus_from_msgpack (PList xs) = Inr (VideoStatus_init y (Some d))"
    by (simp only: VideoStatus_from_msgpack_def y d bindE.simps)
  moreover have "agree_from (length xs)
      (VideoStatus_field_eqs (VideoStatus_init y (Some d)) VideoStatus_default)"
    using y(2) d(2)
    by (auto simp: VideoStatus_field_eqs_def
          VideoStatus_default_def VideoStatus_init_def agree_from_unfold)
  ultimately show ?thesis by blast
qed

lemma VideoStatus_from_msgpack_ok:
  "wt_VideoStatus xs \<Longrightarrow> \<exists>s. VideoStatus_from_msgpack (PList xs) = Inr s"
  using VideoStatus_default_fill by blast



lemma CarPosition_default_fill:
  assumes "wt_CarPosition L xs"
  shows "\<exists>c. CarPosition_from_msgpack L (PList xs) = Inr c \<and>
             agree_from (length xs) (CarPosition_field_eqs c CarPosition_default)"
proof -
  have "38 < length xs \<Longrightarrow> \<exists>y. Flags_call (xs ! 38) = Inr y"
    using assms by (simp add: wt_CarPosition_def at_index_def Flags_call_ok)
  from decode_field_ok [of 38 xs Flags_call UNKNOWN, OF this]
  obtain tf where tf: "bindE (field_at (PList xs) 38) (decode_or UNKNOWN Flags_call) = Inr tf"
    "length xs \<le> 38 \<longrightarrow> tf = UNKNOWN"
    by blast
  have "39 < length xs \<Longrightarrow> \<exists>y. Flags_call (xs ! 39) = Inr y"
    using assms by (simp add: wt_CarPosition_def at_index_def Flags_call_ok)
  from decode_field_ok [of 39 xs Flags_call UNKNOWN, OF this]
  obtain lf where lf: "bindE (field_at (PList xs) 39) (decode_or UNKNOWN Flags_call) = Inr lf"
    "length xs \<le> 39 \<longrightarrow> lf = UNKNOWN"
    by blast
  have "41 < length xs \<Longrightarrow> truthy (xs ! 41) \<Longrightarrow>
        \<exists>y. decode_list CompletedSection_from_msgpack (xs ! 41) = Inr y"
    using assms decode_sequence_ok [of wt_plain CompletedSection_from_msgpack "xs ! 41"]
    by (auto simp: wt_CarPosition_def at_index_def CompletedSection_from_msgpack_ok)
  from decode_field_if_true_ok [of 41 xs "decode_list CompletedSection_from_msgpack" "[]",
      OF this]
  obtain cs where cs: "bindE (field_if_true (PList xs) 41)
                    (decode_or [] (decode_list CompletedSection_from_msgpack)) = Inr cs"
    "length xs \<le> 41 \<or> \<not> truthy (xs ! 41) \<longrightarrow> cs = []"
    by blast
  have "43 < length xs \<Longrightarrow> \<exists>y. parse_time L (xs ! 43) = Inr y"
    using assms by (simp add: wt_CarPosition_def at_index_def parse_time_ok)
  from decode_field_ok [of 43 xs "parse_time L" None, OF this]
  obtain lst where lst: "bindE (field_at (PList xs) 43) (decode_or None (parse_time L)) = Inr lst"
    "length xs \<le> 43 \<longrightarrow> lst = None"
    by blast
  have "46 < length xs \<Longrightarrow> truthy (xs ! 46) \<Longrightarrow>
        \<exists>y. decode_some VideoStatus_from_msgpack (xs ! 46) = Inr y"
    using assms
    by (auto simp: wt_CarPosition_def at_index_def wt_optional_def decode_some_def bindE_eq_Inr
          VideoStatus_from_msgpack_ok split: pyval.splits)
  from decode_field_if_true_ok [of 46 xs "decode_some VideoStatus_from_msgpack" None, OF this]
  obtain icv where icv: "bindE (field_if_true (PList xs) 46)
                    (decode_or None (decode_some VideoStatus_from_msgpack)) = Inr icv"
    "length xs \<le> 46 \<or> \<not> truthy (xs ! 46) \<longrightarrow> icv = None"
    by blast
  show ?thesis
    unfolding CarPosition_from_msgpack_def CarPosition_from_msgpack_tail_def
    apply (simp only: tf(1) lf(1) cs(1) lst(1) icv(1) bindE.simps field_or_PList)
    using tf(2) lf(2) cs(2) lst(2) icv(2)
    by (simp add: CarPosition_field_eqs_def
          CarPosition_default_def CarPosition_init_def agree_from_unfold list_or_empty_def)
qed

lemma CompletedSection_default_fill:
  "\<exists>c. CompletedSection_from_msgpack (PList xs) = Inr c \<and>
       agree_from (length xs) (CompletedSection_field_eqs c CompletedSection_default)"
  by (simp add: CompletedSection_from_msgpack_def CompletedSection_field_eqs_def
        CompletedSection_default_def CompletedSection_init_def agree_from_unfold)

lemma EventEntry_default_fill:
  "\<exists>c. EventEntry_from_msgpack (PList xs) = Inr c \<and>
       agree_from (length xs) (EventEntry_field_eqs c EventEntry_default)"
  by (simp add: EventEntry_from_msgpack_def EventEntry_field_eqs_def
        EventEntry_default_def EventEntry_init_def agree_from_unfold)

lemma Section_default_fill:
  "\<exists>c. Section_from_msgpack (PList xs) = Inr c \<and>
       agree_from (length xs) (Section_field_eqs c Section_default)"
  by (simp add: Section_from_msgpack_def Section_field_eqs_def
        Section_default_def Section_init_def agree_from_unfold)

lemma FlagDuration_default_fill:
  assumes "wt_FlagDuration L xs"
  shows "\<exists>c. FlagDuration_from_msgpack L (PList xs) = Inr c \<and>
       agree_from (length xs) (FlagDuration_field_eqs c FlagDuration_default)"
proof -
  have "0 < length xs \<Longrightarrow> \<exists>y. Flags_call (xs ! 0) = Inr y"
    using assms by (simp add: wt_FlagDuration_def at_index_def Flags_call_ok)
  from decode_field_ok [of 0 xs Flags_call UNKNOWN, OF this]
  obtain f where f: "bindE (field_at (PList xs) 0) (decode_or UNKNOWN Flags_call) = Inr f"
    "length xs \<le> 0 \<longrightarrow> f = UNKNOWN"
    by blast
  have "1 < length xs \<Longrightarrow> \<exists>y. parse_datetime L (xs ! 1) = Inr y"
    using assms by (simp add: wt_FlagDuration_def at_index_def parse_datetime_ok)
  from decode_field_ok [of 1 xs "parse_datetime L" None, OF this]
  obtain st where st: "bindE (field_at (PList xs) 1) (decode_or None (parse_datetime L)) = Inr st"
    "length xs \<le> 1 \<longrightarrow> st = None"
    by blast
  have "2 < length xs \<Longrightarrow> \<exists>y. parse_datetime L (xs ! 2) = Inr y"
    using assms by (simp add: wt_FlagDuration_def at_index_def parse_datetime_ok)
  from decode_field_ok [of 2 xs "parse_datetime L" None, OF this]
  obtain en where en: "bindE (field_at (PList xs) 2) (decode_or None (parse_datetime L)) = Inr en"
    "length xs \<le> 2 \<longrightarrow> en = None"
    by blast
  show ?thesis
    unfolding FlagDuration_from_msgpack_def
    apply (simp only: f(1) st(1) en(1) bindE.simps)
    using f(2) st(2) en(2)
    by (simp add: FlagDuration_field_eqs_def
          FlagDuration_default_def FlagDuration_init_def agree_from_unfold)
qed

lemma Announcement_default_fill:
  assumes "wt_Announcement L xs"
  shows "\<exists>c. Announcement_from_msgpack L (PList xs) = Inr c \<and>
       agree_from (length xs) (Announcement_field_eqs c Announcement_default)"
proof -
  have "0 < length xs \<Longrightarrow> \<exists>y. parse_datetime L (xs ! 0) = Inr y"
    using assms by (simp add: wt_Announcement_def at_index_def parse_datetime_ok)
  from decode_field_ok [of 0 xs "parse_datetime L" None, OF this]
  obtain st where st: "bindE (field_at (PList xs) 0) (decode_or None (parse_datetime L)) = Inr st"
    "length xs \<le> 0 \<longrightarrow> st = None"
    by blast
  show ?thesis
    unfolding Announcement_from_msgpack_def
    apply (simp only: st(1) bindE.simps field_or_PList)
    using st(2)
    by (simp add: Announcement_field_eqs_def
          Announcement_default_def Announcement_init_def agree_from_unfold)
qed

lemma py_dict_get_index_map:
  "py_dict_get (map (\<lambda>i. (PInt (int i), g i)) js) k =
     (if 0 \<le> k \<and> nat k \<in> set js then Some (g (nat k)) else None)"
  by (induction js) auto

lemma py_dict_get_data_dict:
  "py_dict_get (data_dict xs) k =
     (if 0 \<le> k \<and> nat k < length xs then Some (xs ! nat k) else None)"
  by (simp add: data_dict_def py_dict_get_index_map)

lemma dict_get_default_data_dict:
  "dict_get_default (data_dict xs) k d = (if 0 \<le> k \<and> nat k < length xs then xs ! nat k else d)"
  by (simp add: dict_get_default_def py_dict_get_data_dict)

lemma decode_key_ok:
  assumes "nat k < length xs \<Longrightarrow> \<exists>y. f (xs ! nat k) = Inr y" and "f d = Inr y0" and "0 \<le> k"
  shows "\<exists>y. f (dict_get_default (data_dict xs) k d) = Inr y \<and> (length xs \<le> nat k \<longrightarrow> y = y0)"
  using assms by (cases "nat k < length xs") (auto simp: dict_get_default_data_dict)


lemma EventEntry_from_msgpack_ok: "wt_plain xs \<Longrightarrow> \<exists>y. EventEntry_from_msgpack (PList xs) = Inr y"
  using EventEntry_default_fill by blast

lemma Section_from_msgpack_ok: "wt_plain xs \<Longrightarrow> \<exists>y. Section_from_msgpack (PList xs) = Inr y"
  using Section_default_fill by blast

lemma CarPosition_from_msgpack_ok:
  "wt_CarPosition L xs \<Longrightarrow> \<exists>y. CarPosition_from_msgpack L (PList xs) = Inr y"
  using CarPosition_default_fill by blast

lemma FlagDuration_from_msgpack_ok:
  "wt_FlagDuration L xs \<Longrightarrow> \<exists>y. FlagDuration_from_msgpack L (PList xs) = Inr y"
  using FlagDuration_default_fill by blast

lemma Announcement_from_msgpack_ok:
  "wt_Announcement L xs \<Longrightarrow> \<exists>y. Announcement_from_msgpack L (PList xs) = Inr y"
  using Announcement_default_fill by blast

lemma Flags_call_zero: "Flags_call (PInt 0) = Inr UNKNOWN"
  by (simp add: Flags_call_def Flags_of_int_def)

lemma SessionState_default_fill:
  assumes "wt_SessionState L xs"
  shows "\<exists>s. get_current_session_state_decode L (PList xs) = Inr s \<and>
             agree_from (length xs) (SessionState_field_eqs s SessionState_default)"
proof -
  have "\<exists>y. parse_datetime L (dict_get_default (data_dict xs) 9 PNone) = Inr y \<and>
            (length xs \<le> 9 \<longrightarrow> y = None)"
    using assms decode_key_ok [of 9 xs "parse_datetime L" PNone None]
    by (simp add: wt_SessionState_def at_index_def parse_datetime_ok)
  then obtain sst where sst:
    "parse_datetime L (dict_get_default (data_dict xs) 9 PNone) = Inr sst"
    "length xs \<le> 9 \<longrightarrow> sst = None"
    by blast
  have "\<exists>y. parse_datetime L (dict_get_default (data_dict xs) 10 PNone) = Inr y \<and>
            (length xs \<le> 10 \<longrightarrow> y = None)"
    using assms decode_key_ok [of 10 xs "parse_datetime L" PNone None]
    by (simp add: wt_SessionState_def at_index_def parse_datetime_ok)
  then obtain sen where sen:
    "parse_datetime L (dict_get_default (data_dict xs) 10 PNone) = Inr sen"
    "length xs \<le> 10 \<longrightarrow> sen = None"
    by blast
  have "\<exists>y. decode_list EventEntry_from_msgpack (dict_get_default (data_dict xs) 13 (PList [])) = Inr y \<and>
            (length xs \<le> 13 \<longrightarrow> y = [])"
    using assms decode_key_ok [of 13 xs "decode_list EventEntry_from_msgpack" "PList []" "[]"]
      decode_sequence_ok [of wt_plain EventEntry_from_msgpack "xs ! 13"]
    by (simp add: wt_SessionState_def at_index_def EventEntry_from_msgpack_ok)
  then obtain ees where ees:
    "decode_list EventEntry_from_msgpack (dict_get_default (data_dict xs) 13 (PList [])) = Inr ees"
    "length xs \<le> 13 \<longrightarrow> ees = []"
    by blast
  have "\<exists>y. decode_list (CarPosition_from_msgpack L) (dict_get_default (data_dict xs) 14 (PList [])) = Inr y \<and>
            (length xs \<le> 14 \<longrightarrow> y = [])"
    using assms decode_key_ok [of 14 xs "decode_list (CarPosition_from_msgpack L)" "PList []" "[]"]
      decode_sequence_ok [of "wt_CarPosition L" "CarPosition_from_msgpack L" "xs ! 14"]
    by (simp add: wt_SessionState_def at_index_def CarPosition_from_msgpack_ok)
  then obtain cps where cps:
    "decode_list (CarPosition_from_msgpack L) (dict_get_default (data_dict xs) 14 (PList [])) = Inr cps"
    "length xs \<le> 14 \<longrightarrow> cps = []"
    by blast
  have "\<exists>y. Flags_call (dict_get_default (data_dict xs) 15 (PInt 0)) = Inr y \<and>
            (length xs \<le> 15 \<longrightarrow> y = UNKNOWN)"
    using assms decode_key_ok [of 15 xs Flags_call "PInt 0" UNKNOWN]
    by (simp add: wt_SessionState_def at_index_def Flags_call_ok Flags_call_zero)
  then obtain cf where cf:
    "Flags_call (dict_get_default (data_dict xs) 15 (PInt 0)) = Inr cf"
    "length xs \<le> 15 \<longrightarrow> cf = UNKNOWN"
    by blast
  have "\<exists>y. decode_list (FlagDuration_from_msgpack L) (dict_get_default (data_dict xs) 16 (PList [])) = Inr y \<and>
            (length xs \<le> 16 \<longrightarrow> y = [])"
    using assms decode_key_ok [of 16 xs "decode_list (FlagDuration_from_msgpack L)" "PList []" "[]"]
      decode_sequence_ok [of "wt_FlagDuration L" "FlagDuration_from_msgpack L" "xs ! 16"]
    by (simp add: wt_SessionState_def at_index_def FlagDuration_from_msgpack_ok)
  then obtain fds where fds:
    "decode_list (FlagDuration_from_msgpack L) (dict_get_default (data_dict xs) 16 (PList [])) = Inr fds"
    "length xs \<le> 16 \<longrightarrow> fds = []"
    by blast
  have "\<exists>y. decode_list Section_from_msgpack (dict_get_default (data_dict xs) 25 (PList [])) = Inr y \<and>
            (length xs \<le> 25 \<longrightarrow> y = [])"
    using assms decode_key_ok [of 25 xs "decode_list Section_from_msgpack" "PList []" "[]"]
      decode_sequence_ok [of wt_plain Section_from_msgpack "xs ! 25"]
    by (simp add: wt_SessionState_def at_index_def Section_from_msgpack_ok)
  then obtain secs where secs:
    "decode_list Section_from_msgpack (dict_get_default (data_dict xs) 25 (PList [])) = Inr secs"
    "length xs \<le> 25 \<longrightarrow> secs = []"
    by blast
  have "\<exists>y. decode_list (Announcement_from_msgpack L) (dict_get_default (data_dict xs) 27 (PList [])) = Inr y \<and>
            (length xs \<le> 27 \<longrightarrow> y = [])"
    using assms decode_key_ok [of 27 xs "decode_list (Announcement_from_msgpack L)" "PList []" "[]"]
      decode_sequence_ok [of "wt_Announcement L" "Announcement_from_msgpack L" "xs ! 27"]
    by (simp add: wt_SessionState_def at_index_def Announcement_from_msgpack_ok)
  then obtain anns where anns:
    "decode_list (Announcement_from_msgpack L) (dict_get_default (data_dict xs) 27 (PList [])) = Inr anns"
    "length xs \<le> 27 \<longrightarrow> anns = []"
    by blast
  have "\<exists>y. parse_datetime L (dict_get_default (data_dict xs) 28 PNone) = Inr y \<and>
            (length xs \<le> 28 \<longrightarrow> y = None)"
    using assms decode_key_ok [of 28 xs "parse_datetime L" PNone None]
    by (simp add: wt_SessionState_def at_index_def parse_datetime_ok)
  then obtain lu where lu:
    "parse_datetime L (dict_get_default (data_dict xs) 28 PNone) = Inr lu"
    "length xs \<le> 28 \<longrightarrow> lu = None"
    by blast
  show ?thesis
    unfolding get_current_session_state_decode_def SessionState_from_msgpack_dict_def
    apply (simp only: sst(1) sen(1) ees(1) cps(1) cf(1) fds(1) secs(1) anns(1) lu(1)
             bindE.simps pyval.case)
    using sst(2) sen(2) ees(2) cps(2) cf(2) fds(2) secs(2) anns(2) lu(2)
    by (simp add: SessionState_field_eqs_def dict_get_default_data_dict py_or_def
          SessionState_default_def SessionState_init_def agree_from_unfold list_or_empty_def)
qed

section \<open>Encoding and decoding back\<close>

lemma Flags_roundtrip: "Flags_call (PInt (int_of_Flags f)) = Inr f"
  by (cases f) (simp_all add: Flags_call_def Flags_of_int_def)

lemma VideoSystemType_roundtrip: "VideoSystemType_call (PInt (int_of_VideoSystemType f)) = Inr f"
  by (cases f) (simp_all add: VideoSystemType_call_def VideoSystemType_of_int_def)

lemma VideoDestinationType_roundtrip:
  "VideoDestinationType_call (PInt (int_of_VideoDestinationType f)) = Inr f"
  by (cases f) (simp_all add: VideoDestinationType_call_def VideoDestinationType_of_int_def)

lemma parse_datetime_roundtrip:
  "isoformat_roundtrip L \<Longrightarrow> parse_datetime L (datetime_to_wire L x) = Inr x"
  by (cases x) (simp_all add: isoformat_roundtrip_def datetime_to_wire_def)

lemma parse_time_roundtrip:
  "isoformat_roundtrip L \<Longrightarrow> parse_time L (time_to_wire L x) = Inr x"
  by (cases x) (simp_all add: isoformat_roundtrip_def time_to_wire_def)

lemma mapE_roundtrip:
  assumes "\<And>x. f (g x) = Inr x"
  shows "mapE f (map g xs) = Inr xs"
  by (induction xs) (simp_all add: assms)

lemma VideoDestination_roundtrip:
  "VideoDestination_from_msgpack (PList (VideoDestination_to_msgpack v)) = Inr v"
  by (cases v)
     (simp add: VideoDestination_from_msgpack_def VideoDestination_to_msgpack_def
        VideoDestinationType_roundtrip VideoDestination_init_def)

lemma VideoDestination_to_msgpack_not_Nil: "VideoDestination_to_msgpack v \<noteq> []"
  by (simp add: VideoDestination_to_msgpack_def)

lemma VideoStatus_roundtrip:
  "VideoStatus_from_msgpack (PList (VideoStatus_to_msgpack v)) = Inr v"
  by (cases v)
     (simp add: VideoStatus_from_msgpack_def VideoStatus_to_msgpack_def
        VideoSystemType_roundtrip VideoStatus_init_def VideoDestination_roundtrip
        VideoDestination_to_msgpack_not_Nil)

lemma VideoStatus_to_msgpack_not_Nil: "VideoStatus_to_msgpack v \<noteq> []"
  by (simp add: VideoStatus_to_msgpack_def)

lemma CompletedSection_roundtrip:
  "CompletedSection_from_msgpack (PList (CompletedSection_to_msgpack v)) = Inr v"
  by (cases v)
     (simp add: CompletedSection_from_msgpack_def CompletedSection_to_msgpack_def
        CompletedSection_init_def)

lemma EventEntry_roundtrip:
  "EventEntry_from_msgpack (PList (EventEntry_to_msgpack v)) = Inr v"
  by (cases v)
     (simp add: EventEntry_from_msgpack_def EventEntry_to_msgpack_def EventEntry_init_def)

lemma Section_roundtrip:
  "Section_from_msgpack (PList (Section_to_msgpack v)) = Inr v"
  by (cases v)
     (simp add: Section_from_msgpack_def Section_to_msgpack_def Section_init_def)

lemma FlagDuration_roundtrip:
  "isoformat_roundtrip L \<Longrightarrow>
   FlagDuration_from_msgpack L (PList (FlagDuration_to_msgpack L v)) = Inr v"
  by (cases v)
     (simp add: FlagDuration_from_msgpack_def FlagDuration_to_msgpack_def FlagDuration_init_def
        Flags_roundtrip parse_datetime_roundtrip)

lemma Announcement_roundtrip:
  "isoformat_roundtrip L \<Longrightarrow>
   Announcement_from_msgpack L (PList (Announcement_to_msgpack L v)) = Inr v"
  by (cases v)
     (simp add: Announcement_from_msgpack_def Announcement_to_msgpack_def Announcement_init_def
        parse_datetime_roundtrip)

lemma CarPosition_roundtrip:
  "isoformat_roundtrip L \<Longrightarrow>
   CarPosition_from_msgpack L (PList (CarPosition_to_msgpack L v)) = Inr v"
  apply (cases v)
  apply (simp add: CarPosition_from_msgpack_def CarPosition_from_msgpack_tail_def CarPosition_to_msgpack_def CarPosition_init_def
        Flags_roundtrip parse_time_roundtrip mapE_roundtrip CompletedSection_roundtrip
        VideoStatus_roundtrip list_or_empty_def decode_some_def VideoStatus_to_msgpack_not_Nil
        split: option.splits)
  done

lemma SessionState_roundtrip:
  "isoformat_roundtrip L \<Longrightarrow> is_dict (ss_class_colors v) \<Longrightarrow>
   SessionState_from_msgpack_dict L (SessionState_to_msgpack_dict L v) = Inr v"
  apply (cases v)
  apply (auto simp add: SessionState_from_msgpack_dict_def SessionState_to_msgpack_dict_def
        SessionState_init_def dict_get_default_def is_dict_def py_or_def
        Flags_roundtrip parse_datetime_roundtrip mapE_roundtrip CarPosition_roundtrip
        EventEntry_roundtrip Section_roundtrip FlagDuration_roundtrip Announcement_roundtrip
        list_or_empty_def
        split: pyval.splits)
  done


section \<open>No decoder raises the error of an unexpected format\<close>

lemma accepted_Inr [simp]: "accepted (Inr x)"
  by (simp add: accepted_def)

lemma accepted_bindE: "accepted m \<Longrightarrow> (\<And>x. accepted (f x)) \<Longrightarrow> accepted (bindE m f)"
  by (cases m) (simp_all add: accepted_def)

lemma accepted_mapE: "(\<And>x. accepted (f x)) \<Longrightarrow> accepted (mapE f xs)"
  by (induction xs) (simp_all add: accepted_bindE)

lemma accepted_py_len: "accepted (py_len v)"
  by (cases v) (simp_all add: accepted_def)

lemma accepted_py_getitem: "accepted (py_getitem v i)"
  by (cases v) (simp_all add: accepted_def split: option.splits)

lemma accepted_py_iter: "accepted (py_iter v)"
  by (cases v) (simp_all add: accepted_def)

lemma accepted_field_at: "accepted (field_at v i)"
  unfolding field_at_def
  by (intro accepted_bindE accepted_py_len) (simp add: accepted_bindE accepted_py_getitem)

lemma accepted_field_or: "accepted (field_or v i d)"
  unfolding field_or_def by (intro accepted_bindE accepted_field_at accepted_Inr)

lemma accepted_field_if_true: "accepted (field_if_true v i)"
  unfolding field_if_true_def by (intro accepted_bindE accepted_field_at accepted_Inr)

lemma accepted_decode_or: "(\<And>x. accepted (f x)) \<Longrightarrow> accepted (decode_or d f v)"
  by (cases v) simp_all

lemma accepted_decode_list: "(\<And>x. accepted (f x)) \<Longrightarrow> accepted (decode_list f v)"
  unfolding decode_list_def by (intro accepted_bindE accepted_py_iter accepted_mapE)

lemma accepted_decode_some: "(\<And>x. accepted (f x)) \<Longrightarrow> accepted (decode_some f v)"
  unfolding decode_some_def by (intro accepted_bindE accepted_Inr)

lemma accepted_Flags_call: "accepted (Flags_call v)"
  by (simp add: accepted_def Flags_call_def Flags_of_int_def split: option.splits)

lemma accepted_VideoSystemType_call: "accepted (VideoSystemType_call v)"
  by (simp add: accepted_def VideoSystemType_call_def VideoSystemType_of_int_def
        split: option.splits)

lemma accepted_VideoDestinationType_call: "accepted (VideoDestinationType_call v)"
  by (simp add: accepted_def VideoDestinationType_call_def VideoDestinationType_of_int_def
        split: option.splits)

lemma accepted_parse_datetime: "accepted (parse_datetime L v)"
  by (cases v) (simp_all add: accepted_def split: option.splits)

lemma accepted_parse_time: "accepted (parse_time L v)"
  by (cases v) (simp_all add: accepted_def split: option.splits)

lemmas accepted_intros =
  accepted_bindE accepted_Inr accepted_field_at accepted_field_or accepted_field_if_true
  accepted_decode_or accepted_decode_list accepted_decode_some accepted_Flags_call
  accepted_VideoSystemType_call accepted_VideoDestinationType_call accepted_parse_datetime
  accepted_parse_time

lemma accepted_VideoDestination: "accepted (VideoDestination_from_msgpack v)"
  unfolding VideoDestination_from_msgpack_def by (intro accepted_intros)

lemma accepted_VideoStatus: "accepted (VideoStatus_from_msgpack v)"
  unfolding VideoStatus_from_msgpack_def by (intro accepted_intros accepted_VideoDestination)

lemma accepted_CompletedSection: "accepted (CompletedSection_from_msgpack v)"
  unfolding CompletedSection_from_msgpack_def by (intro accepted_intros)

lemma accepted_EventEntry: "accepted (EventEntry_from_msgpack v)"
  unfolding EventEntry_from_msgpack_def by (intro accepted_intros)

lemma accepted_Section: "accepted (Section_from_msgpack v)"
  unfolding Section_from_msgpack_def by (intro accepted_intros)

lemma accepted_FlagDuration: "accepted (FlagDuration_from_msgpack L v)"
  unfolding FlagDuration_from_msgpack_def by (intro accepted_intros)

lemma accepted_Announcement: "accepted (Announcement_from_msgpack L v)"
  unfolding Announcement_from_msgpack_def by (intro accepted_intros)

lemma accepted_CarPosition: "accepted (CarPosition_from_msgpack L v)"
  unfolding CarPosition_from_msgpack_def CarPosition_from_msgpack_tail_def
  by (intro accepted_intros accepted_CompletedSection accepted_VideoStatus)

lemma accepted_SessionState: "accepted (SessionState_from_msgpack_dict L d)"
  unfolding SessionState_from_msgpack_dict_def
  by (intro accepted_intros accepted_EventEntry accepted_CarPosition accepted_FlagDuration
        accepted_Section accepted_Announcement)

section \<open>The session decoder only looks keys up\<close>

lemma SessionState_from_msgpack_dict_cong:
  assumes "\<And>k. 0 \<le> k \<Longrightarrow> k \<le> 28 \<Longrightarrow> py_dict_get d k = py_dict_get d' k"
  shows "SessionState_from_msgpack_dict L d = SessionState_from_msgpack_dict L d'"
proof -
  have "dict_get_default d k x = dict_get_default d' k x" if "0 \<le> k" "k \<le> 28" for k x
    using assms [OF that] by (simp add: dict_get_default_def)
  then show ?thesis
    by (simp add: SessionState_from_msgpack_dict_def)
qed

lemma py_dict_get_enumerate:
  "py_dict_get (map (\<lambda>iv. (PInt (int (fst iv)), snd iv)) (enumerate n xs)) k =
     (if int n \<le> k \<and> nat k - n < length xs then Some (xs ! (nat k - n)) else None)"
proof (induction xs arbitrary: n)
  case Nil
  then show ?case by simp
next
  case (Cons x xs)
  show ?case
  proof (cases "k = int n")
    case True
    then show ?thesis by simp
  next
    case False
    then show ?thesis
      using Cons.IH [of "Suc n"]
      by (auto simp: nth_Cons' Suc_diff_le)
  qed
qed

lemma raises_null_keys:
  assumes "py_dict_get d 15 = Some PNone \<or> py_dict_get d 13 = Some PNone \<or>
           py_dict_get d 14 = Some PNone \<or> py_dict_get d 16 = Some PNone \<or>
           py_dict_get d 25 = Some PNone \<or> py_dict_get d 27 = Some PNone"
  shows "raises (SessionState_from_msgpack_dict L d)"
  using assms
  by (auto simp: raises_def SessionState_from_msgpack_dict_def bindE_case dict_get_default_def
        decode_list_def Flags_call_def split: sum.splits)



section \<open>The merge, position by position\<close>




























section \<open>Nested records that are null\<close>

lemma isoformat_roundtrip_text_stdlib: "isoformat_roundtrip text_stdlib"
  by (simp add: isoformat_roundtrip_def text_stdlib_def)

lemma CarPosition_null_video:
  assumes "CarPosition_from_msgpack L (PList xs) = Inr c"
    and "length xs \<le> 46 \<or> xs ! 46 = PNone"
  shows "cp_in_car_video c = None"
  using assms
  by (auto simp: CarPosition_from_msgpack_def CarPosition_from_msgpack_tail_def bindE_eq_Inr CarPosition_init_def)

lemma VideoStatus_null_destination:
  assumes "VideoStatus_from_msgpack (PList ys) = Inr v"
    and "length ys \<le> 1 \<or> ys ! 1 = PNone"
  shows "vs_video_destination v = VideoDestination_default"
  using assms
  by (auto simp: VideoStatus_from_msgpack_def bindE_eq_Inr VideoStatus_init_def)

text \<open>
  C5, as the code has it. When index 46 of a car array is null or absent, a successful
  decode has \<^verbatim>\<open>in_car_video = None\<close>, and the decode succeeds on a well-typed array. When
  index 1 of a video status array is null or absent, a successful decode has for
  \<^verbatim>\<open>video_destination\<close> the \<^verbatim>\<open>VideoDestination\<close> built with no argument, and the decode
  succeeds on a well-typed array.
\<close>

theorem null_nested_record_decoding:
  "(CarPosition_from_msgpack L (PList xs) = Inr c \<and> (length xs \<le> 46 \<or> xs ! 46 = PNone)
      \<longrightarrow> cp_in_car_video c = None)
   \<and> (wt_CarPosition L xs \<and> (length xs \<le> 46 \<or> xs ! 46 = PNone)
      \<longrightarrow> (\<exists>c'. CarPosition_from_msgpack L (PList xs) = Inr c' \<and> cp_in_car_video c' = None))
   \<and> (VideoStatus_from_msgpack (PList ys) = Inr v \<and> (length ys \<le> 1 \<or> ys ! 1 = PNone)
      \<longrightarrow> vs_video_destination v = VideoDestination_default)
   \<and> (wt_VideoStatus ys \<and> (length ys \<le> 1 \<or> ys ! 1 = PNone)
      \<longrightarrow> (\<exists>v'. VideoStatus_from_msgpack (PList ys) = Inr v' \<and>
                 vs_video_destination v' = VideoDestination_default))"
  using CarPosition_null_video [of L xs] VideoStatus_null_destination [of ys]
    CarPosition_from_msgpack_ok [of L xs] VideoStatus_from_msgpack_ok [of ys]
  by blast

text \<open>
  Witness for C5: a short car array and a video status with a null destination.
\<close>

theorem null_nested_record_decoding_witness:
  "wt_CarPosition text_stdlib [PStr ''e'', PStr ''s'', PStr ''60'']
   \<and> length [PStr ''e'', PStr ''s'', PStr ''60''] \<le> 46
   \<and> (\<exists>c'. CarPosition_from_msgpack text_stdlib (PList [PStr ''e'', PStr ''s'', PStr ''60'']) = Inr c'
          \<and> cp_in_car_video c' = None)
   \<and> wt_VideoStatus [PInt 1, PNone] \<and> [PInt 1, PNone] ! 1 = PNone
   \<and> (\<exists>v'. VideoStatus_from_msgpack (PList [PInt 1, PNone]) = Inr v' \<and>
                 vs_video_destination v' = VideoDestination_default)"
proof -
  have a: "wt_CarPosition text_stdlib [PStr ''e'', PStr ''s'', PStr ''60'']"
    by (simp add: wt_CarPosition_def at_index_def)
  have b: "wt_VideoStatus [PInt 1, PNone]"
    by (simp add: wt_VideoStatus_def at_index_def is_enum_code_def wt_optional_def)
  show ?thesis
    using a b
      null_nested_record_decoding [of text_stdlib "[PStr ''e'', PStr ''s'', PStr ''60'']" _
        "[PInt 1, PNone]"]
    by simp
qed

text \<open>
  Counterexample to C5 as stated: the video status \<^verbatim>\<open>[0, None]\<close> decodes to a status whose
  destination is a record populated with the defaults, not to ``no value''.
\<close>

theorem null_video_destination_counterexample:
  "VideoStatus_from_msgpack (PList [PInt 0, PNone]) =
     Inr \<lparr>vs_video_system_type = VST_NONE,
          vs_video_destination =
            \<lparr>vd_type = VDT_NONE, vd_url = PStr [], vd_host_name = PStr [], vd_port = PInt 0,
             vd_parameters = PStr []\<rparr>\<rparr>"
  by (simp add: VideoStatus_from_msgpack_def VideoStatus_init_def VideoDestination_default_def
        VideoDestination_init_def VideoSystemType_call_def VideoSystemType_of_int_def)

section \<open>Enum codes out of range\<close>















section \<open>The sentinel of the positions gained\<close>

text \<open>
  C6. The sentinel of the positions gained. An array of length at most 23 decodes, with
  \<^verbatim>\<open>overall_positions_gained = -999\<close>; an array of length at most 25 decodes, with
  \<^verbatim>\<open>in_class_positions_gained = -999\<close>. A well-typed array that holds 0 at index 23 (at index
  25) decodes, with the field equal to 0, which is not the sentinel; and any successful decode of an array longer than 23 (25) has the
  field equal to what the array holds there.
\<close>

theorem positions_gained_sentinel:
  "(length xs \<le> 23 \<longrightarrow>
        (\<exists>c'. CarPosition_from_msgpack L (PList xs) = Inr c' \<and>
              cp_overall_positions_gained c' = PInt (- 999)))
   \<and> (length xs \<le> 25 \<longrightarrow>
        (\<exists>c'. CarPosition_from_msgpack L (PList xs) = Inr c' \<and>
              cp_in_class_positions_gained c' = PInt (- 999)))
   \<and> (23 < length xs \<and> wt_CarPosition L xs \<and> xs ! 23 = PInt 0 \<longrightarrow>
        (\<exists>c'. CarPosition_from_msgpack L (PList xs) = Inr c' \<and>
              cp_overall_positions_gained c' = PInt 0 \<and>
              cp_overall_positions_gained c' \<noteq> PInt (- 999)))
   \<and> (25 < length xs \<and> wt_CarPosition L xs \<and> xs ! 25 = PInt 0 \<longrightarrow>
        (\<exists>c'. CarPosition_from_msgpack L (PList xs) = Inr c' \<and>
              cp_in_class_positions_gained c' = PInt 0 \<and>
              cp_in_class_positions_gained c' \<noteq> PInt (- 999)))
   \<and> (CarPosition_from_msgpack L (PList xs) = Inr c \<and> 23 < length xs \<longrightarrow>
        cp_overall_positions_gained c = xs ! 23)
   \<and> (CarPosition_from_msgpack L (PList xs) = Inr c \<and> 25 < length xs \<longrightarrow>
        cp_in_class_positions_gained c = xs ! 25)"
proof -
  have 1: "length xs \<le> 23 \<longrightarrow>
        (\<exists>c'. CarPosition_from_msgpack L (PList xs) = Inr c' \<and>
              cp_overall_positions_gained c' = PInt (- 999))"
    by (simp add: CarPosition_from_msgpack_def CarPosition_from_msgpack_tail_def CarPosition_init_def INVALID_POSITION_def)
  have 2: "length xs \<le> 25 \<longrightarrow>
        (\<exists>c'. CarPosition_from_msgpack L (PList xs) = Inr c' \<and>
              cp_in_class_positions_gained c' = PInt (- 999))"
    by (simp add: CarPosition_from_msgpack_def CarPosition_from_msgpack_tail_def CarPosition_init_def INVALID_POSITION_def)
  have 3: "23 < length xs \<and> wt_CarPosition L xs \<and> xs ! 23 = PInt 0 \<longrightarrow>
        (\<exists>c'. CarPosition_from_msgpack L (PList xs) = Inr c' \<and>
              cp_overall_positions_gained c' = PInt 0 \<and>
              cp_overall_positions_gained c' \<noteq> PInt (- 999))"
  proof
    assume h: "23 < length xs \<and> wt_CarPosition L xs \<and> xs ! 23 = PInt 0"
    then obtain c' where c': "CarPosition_from_msgpack L (PList xs) = Inr c'"
      using CarPosition_from_msgpack_ok by blast
    with h have "cp_overall_positions_gained c' = PInt 0"
      by (auto simp: CarPosition_from_msgpack_def CarPosition_from_msgpack_tail_def
            CarPosition_init_def bindE_eq_Inr)
    with c' show "\<exists>c'. CarPosition_from_msgpack L (PList xs) = Inr c' \<and>
              cp_overall_positions_gained c' = PInt 0 \<and>
              cp_overall_positions_gained c' \<noteq> PInt (- 999)"
      by simp
  qed
  have 4: "25 < length xs \<and> wt_CarPosition L xs \<and> xs ! 25 = PInt 0 \<longrightarrow>
        (\<exists>c'. CarPosition_from_msgpack L (PList xs) = Inr c' \<and>
              cp_in_class_positions_gained c' = PInt 0 \<and>
              cp_in_class_positions_gained c' \<noteq> PInt (- 999))"
  proof
    assume h: "25 < length xs \<and> wt_CarPosition L xs \<and> xs ! 25 = PInt 0"
    then obtain c' where c': "CarPosition_from_msgpack L (PList xs) = Inr c'"
      using CarPosition_from_msgpack_ok by blast
    with h have "cp_in_class_positions_gained c' = PInt 0"
      by (auto simp: CarPosition_from_msgpack_def CarPosition_from_msgpack_tail_def
            CarPosition_init_def bindE_eq_Inr)
    with c' show "\<exists>c'. CarPosition_from_msgpack L (PList xs) = Inr c' \<and>
              cp_in_class_positions_gained c' = PInt 0 \<and>
              cp_in_class_positions_gained c' \<noteq> PInt (- 999)"
      by simp
  qed
  have 5: "CarPosition_from_msgpack L (PList xs) = Inr c \<and> 23 < length xs \<longrightarrow>
        cp_overall_positions_gained c = xs ! 23"
    by (auto simp: CarPosition_from_msgpack_def CarPosition_from_msgpack_tail_def CarPosition_init_def bindE_eq_Inr)
  have 6: "CarPosition_from_msgpack L (PList xs) = Inr c \<and> 25 < length xs \<longrightarrow>
        cp_in_class_positions_gained c = xs ! 25"
    by (auto simp: CarPosition_from_msgpack_def CarPosition_from_msgpack_tail_def CarPosition_init_def bindE_eq_Inr)
  from 1 2 3 4 5 6 show ?thesis
    by (intro conjI)
qed

text \<open>
  Witness for C6: the empty array, and an array with the explicit 0 at index 23.
\<close>

theorem positions_gained_sentinel_witness:
  "length ([] :: pyval list) \<le> 23
   \<and> (\<exists>c'. CarPosition_from_msgpack text_stdlib (PList []) = Inr c' \<and>
              cp_overall_positions_gained c' = PInt (- 999))
   \<and> 23 < length (replicate 23 PNone @ [PInt 0])
   \<and> wt_CarPosition text_stdlib (replicate 23 PNone @ [PInt 0])
   \<and> (replicate 23 PNone @ [PInt 0]) ! 23 = PInt 0
   \<and> (\<exists>c'. CarPosition_from_msgpack text_stdlib (PList (replicate 23 PNone @ [PInt 0])) = Inr c' \<and>
              cp_overall_positions_gained c' = PInt 0 \<and>
              cp_overall_positions_gained c' \<noteq> PInt (- 999))"
  using positions_gained_sentinel [of "[]" text_stdlib]
    positions_gained_sentinel [of "replicate 23 PNone @ [PInt 0]" text_stdlib]
  by (simp add: nth_append wt_CarPosition_def at_index_def)


section \<open>Array form and map form decode alike\<close>

lemma py_dict_get_car_dict:
  "\<exists>p. car_dict (PList l) = Some p \<and> (\<forall>k. py_dict_get p k = py_dict_get (data_dict l) k)"
  by (simp add: car_dict_def py_dict_get_enumerate py_dict_get_data_dict)


lemma decode_same_lookups:
  assumes "\<forall>k. py_dict_get d k = (if 0 \<le> k \<and> nat k < length l then Some (l ! nat k) else None)"
  shows "get_current_session_state_decode L (PDict d) = get_current_session_state_decode L (PList l)"
  unfolding get_current_session_state_decode_def
  using assms by (auto intro!: SessionState_from_msgpack_dict_cong simp: py_dict_get_data_dict)


text \<open>
  C8. Array form and map form. The array path of \<^verbatim>\<open>get_current_session_state\<close> is
  \<^verbatim>\<open>from_msgpack_dict\<close> after the conversion \<open>data_dict\<close>, the dict path is \<^verbatim>\<open>from_msgpack_dict\<close>
  itself; \<open>data_dict l\<close> maps \<open>i\<close> to \<open>l[i]\<close> for \<open>0 \<le> i < len(l)\<close> and has no other
  integer key; every dict with these lookups decodes to the same result as the array;
  neither form is rejected as an unexpected format; and the normalisation of
  \<^verbatim>\<open>signalr_client.py\<close> builds a dict with the same lookups.
\<close>

theorem array_and_map_forms_decode_alike:
  "get_current_session_state_decode L (PList l) = SessionState_from_msgpack_dict L (data_dict l)
   \<and> get_current_session_state_decode L (PDict d) = SessionState_from_msgpack_dict L d
   \<and> (\<forall>k. py_dict_get (data_dict l) k =
            (if 0 \<le> k \<and> nat k < length l then Some (l ! nat k) else None))
   \<and> ((\<forall>k. py_dict_get d k = (if 0 \<le> k \<and> nat k < length l then Some (l ! nat k) else None))
        \<longrightarrow> get_current_session_state_decode L (PDict d) =
            get_current_session_state_decode L (PList l))
   \<and> get_current_session_state_decode L (PList l) \<noteq> Inl UnexpectedFormat
   \<and> get_current_session_state_decode L (PDict d) \<noteq> Inl UnexpectedFormat
   \<and> (\<exists>p. car_dict (PList l) = Some p \<and> (\<forall>k. py_dict_get p k = py_dict_get (data_dict l) k))"
proof -
  have "get_current_session_state_decode L (PList l) \<noteq> Inl UnexpectedFormat"
    and "get_current_session_state_decode L (PDict d) \<noteq> Inl UnexpectedFormat"
    using accepted_SessionState [of L d] accepted_SessionState [of L "data_dict l"]
    by (simp_all add: get_current_session_state_decode_def accepted_def)
  then show ?thesis
    using decode_same_lookups [of d l L] py_dict_get_car_dict [of l]
    by (simp add: get_current_session_state_decode_def py_dict_get_data_dict)
qed


text \<open>
  Witness for C8: a two-element array and the dict with the same entries in another order.
\<close>

theorem array_and_map_forms_decode_alike_witness:
  "(\<forall>k. py_dict_get [(PInt 1, PStr ''Test Race''), (PInt 0, PInt 2)] k =
         (if 0 \<le> k \<and> nat k < length [PInt 2, PStr ''Test Race'']
          then Some ([PInt 2, PStr ''Test Race''] ! nat k) else None))
   \<and> get_current_session_state_decode text_stdlib
        (PDict [(PInt 1, PStr ''Test Race''), (PInt 0, PInt 2)]) =
      get_current_session_state_decode text_stdlib (PList [PInt 2, PStr ''Test Race''])"
proof -
  have h: "\<forall>k. py_dict_get [(PInt 1, PStr ''Test Race''), (PInt 0, PInt 2)] k =
         (if 0 \<le> k \<and> nat k < length [PInt 2, PStr ''Test Race'']
          then Some ([PInt 2, PStr ''Test Race''] ! nat k) else None)"
  proof
    fix k :: int
    consider "k = 0" | "k = 1" | "k < 0" | "1 < k" by linarith
    then show "py_dict_get [(PInt 1, PStr ''Test Race''), (PInt 0, PInt 2)] k =
         (if 0 \<le> k \<and> nat k < length [PInt 2, PStr ''Test Race'']
          then Some ([PInt 2, PStr ''Test Race''] ! nat k) else None)"
      by cases auto
  qed
  have "(\<forall>k. py_dict_get [(PInt 1, PStr ''Test Race''), (PInt 0, PInt 2)] k =
         (if 0 \<le> k \<and> nat k < length [PInt 2, PStr ''Test Race'']
          then Some ([PInt 2, PStr ''Test Race''] ! nat k) else None))
        \<longrightarrow> get_current_session_state_decode text_stdlib
        (PDict [(PInt 1, PStr ''Test Race''), (PInt 0, PInt 2)]) =
      get_current_session_state_decode text_stdlib (PList [PInt 2, PStr ''Test Race''])"
    using array_and_map_forms_decode_alike
      [of text_stdlib "[PInt 2, PStr ''Test Race'']"
          "[(PInt 1, PStr ''Test Race''), (PInt 0, PInt 2)]"]
    by (elim conjE)
  with h show ?thesis by (intro conjI) (rule h, rule mp)
qed


section \<open>Null and absent keys of a session map\<close>

lemma SessionState_decoded_fields:
  assumes "SessionState_from_msgpack_dict L d = Inr s"
  shows "Flags_call (dict_get_default d 15 (PInt 0)) = Inr (ss_current_flag s)"
    and "decode_list EventEntry_from_msgpack (dict_get_default d 13 (PList [])) =
         Inr (ss_event_entries s)"
    and "decode_list (CarPosition_from_msgpack L) (dict_get_default d 14 (PList [])) =
         Inr (ss_car_positions s)"
    and "decode_list (FlagDuration_from_msgpack L) (dict_get_default d 16 (PList [])) =
         Inr (ss_flag_durations s)"
    and "decode_list Section_from_msgpack (dict_get_default d 25 (PList [])) =
         Inr (ss_sections s)"
    and "decode_list (Announcement_from_msgpack L) (dict_get_default d 27 (PList [])) =
         Inr (ss_announcements s)"
    and "ss_class_colors s = py_or (dict_get_default d 26 (PDict [])) (PDict [])"
  using assms
  by (auto simp: SessionState_from_msgpack_dict_def bindE_eq_Inr SessionState_init_def
        list_or_empty_def)

lemma absent_key_defaults:
  assumes "SessionState_from_msgpack_dict L d = Inr s"
  shows "(py_dict_get d 15 = None \<longrightarrow> ss_current_flag s = UNKNOWN)
       \<and> (py_dict_get d 13 = None \<longrightarrow> ss_event_entries s = [])
       \<and> (py_dict_get d 14 = None \<longrightarrow> ss_car_positions s = [])
       \<and> (py_dict_get d 16 = None \<longrightarrow> ss_flag_durations s = [])
       \<and> (py_dict_get d 25 = None \<longrightarrow> ss_sections s = [])
       \<and> (py_dict_get d 27 = None \<longrightarrow> ss_announcements s = [])"
  using SessionState_decoded_fields(1-6) [OF assms]
  by (auto simp: dict_get_default_def Flags_call_zero)



lemma absent_keys_decode:
  assumes "py_dict_get d 15 = None" "py_dict_get d 13 = None" "py_dict_get d 14 = None"
    "py_dict_get d 16 = None" "py_dict_get d 25 = None" "py_dict_get d 27 = None"
    and "wt_datetime L (dict_get_default d 9 PNone)" "wt_datetime L (dict_get_default d 10 PNone)"
    "wt_datetime L (dict_get_default d 28 PNone)"
  shows "\<exists>s. SessionState_from_msgpack_dict L d = Inr s"
proof -
  from assms(7) obtain a where a: "parse_datetime L (dict_get_default d 9 PNone) = Inr a"
    using parse_datetime_ok by blast
  from assms(8) obtain b where b: "parse_datetime L (dict_get_default d 10 PNone) = Inr b"
    using parse_datetime_ok by blast
  from assms(9) obtain c where c: "parse_datetime L (dict_get_default d 28 PNone) = Inr c"
    using parse_datetime_ok by blast
  have flag: "Flags_call (dict_get_default d 15 (PInt 0)) = Inr UNKNOWN"
    using assms(1) by (simp add: dict_get_default_def Flags_call_zero)
  have lists: "decode_list f (dict_get_default d 13 (PList [])) = Inr []"
    "decode_list g (dict_get_default d 14 (PList [])) = Inr []"
    "decode_list h (dict_get_default d 16 (PList [])) = Inr []"
    "decode_list f' (dict_get_default d 25 (PList [])) = Inr []"
    "decode_list g' (dict_get_default d 27 (PList [])) = Inr []" for f g h f' g'
    using assms(2-6) by (simp_all add: dict_get_default_def)
  show ?thesis
    unfolding SessionState_from_msgpack_dict_def
    by (simp only: a b c flag lists bindE.simps) blast
qed


text \<open>
  C10. In the map form a null is not an absent key. If key 15, 13, 14, 16, 25 or 27
  is present with value \<^verbatim>\<open>None\<close>, \<^verbatim>\<open>from_msgpack_dict\<close> raises. If such a key is absent, a
  successful decode has the default there (\<^verbatim>\<open>Flags.UNKNOWN\<close>, the empty list); and when
  all six are absent and the three datetime positions are well typed, the decode succeeds.
\<close>

theorem null_is_not_absent_in_session_map:
  "((py_dict_get d 15 = Some PNone \<or> py_dict_get d 13 = Some PNone \<or>
     py_dict_get d 14 = Some PNone \<or> py_dict_get d 16 = Some PNone \<or>
     py_dict_get d 25 = Some PNone \<or> py_dict_get d 27 = Some PNone)
      \<longrightarrow> raises (SessionState_from_msgpack_dict L d))
   \<and> (SessionState_from_msgpack_dict L d = Inr s \<longrightarrow>
        (py_dict_get d 15 = None \<longrightarrow> ss_current_flag s = UNKNOWN)
        \<and> (py_dict_get d 13 = None \<longrightarrow> ss_event_entries s = [])
        \<and> (py_dict_get d 14 = None \<longrightarrow> ss_car_positions s = [])
        \<and> (py_dict_get d 16 = None \<longrightarrow> ss_flag_durations s = [])
        \<and> (py_dict_get d 25 = None \<longrightarrow> ss_sections s = [])
        \<and> (py_dict_get d 27 = None \<longrightarrow> ss_announcements s = []))
   \<and> (py_dict_get d 15 = None \<and> py_dict_get d 13 = None \<and> py_dict_get d 14 = None \<and>
      py_dict_get d 16 = None \<and> py_dict_get d 25 = None \<and> py_dict_get d 27 = None \<and>
      wt_datetime L (dict_get_default d 9 PNone) \<and> wt_datetime L (dict_get_default d 10 PNone) \<and>
      wt_datetime L (dict_get_default d 28 PNone)
      \<longrightarrow> (\<exists>s'. SessionState_from_msgpack_dict L d = Inr s' \<and> ss_current_flag s' = UNKNOWN \<and>
                ss_event_entries s' = [] \<and> ss_car_positions s' = [] \<and>
                ss_flag_durations s' = [] \<and> ss_sections s' = [] \<and> ss_announcements s' = []))"
proof -
  have a: "(py_dict_get d 15 = Some PNone \<or> py_dict_get d 13 = Some PNone \<or>
     py_dict_get d 14 = Some PNone \<or> py_dict_get d 16 = Some PNone \<or>
     py_dict_get d 25 = Some PNone \<or> py_dict_get d 27 = Some PNone)
      \<longrightarrow> raises (SessionState_from_msgpack_dict L d)"
    using raises_null_keys [of d L] by blast
  have b: "SessionState_from_msgpack_dict L d = Inr s \<longrightarrow>
        (py_dict_get d 15 = None \<longrightarrow> ss_current_flag s = UNKNOWN)
        \<and> (py_dict_get d 13 = None \<longrightarrow> ss_event_entries s = [])
        \<and> (py_dict_get d 14 = None \<longrightarrow> ss_car_positions s = [])
        \<and> (py_dict_get d 16 = None \<longrightarrow> ss_flag_durations s = [])
        \<and> (py_dict_get d 25 = None \<longrightarrow> ss_sections s = [])
        \<and> (py_dict_get d 27 = None \<longrightarrow> ss_announcements s = [])"
    using absent_key_defaults [of L d s] by blast
  have c: "py_dict_get d 15 = None \<and> py_dict_get d 13 = None \<and> py_dict_get d 14 = None \<and>
      py_dict_get d 16 = None \<and> py_dict_get d 25 = None \<and> py_dict_get d 27 = None \<and>
      wt_datetime L (dict_get_default d 9 PNone) \<and> wt_datetime L (dict_get_default d 10 PNone) \<and>
      wt_datetime L (dict_get_default d 28 PNone)
      \<longrightarrow> (\<exists>s'. SessionState_from_msgpack_dict L d = Inr s' \<and> ss_current_flag s' = UNKNOWN \<and>
                ss_event_entries s' = [] \<and> ss_car_positions s' = [] \<and>
                ss_flag_durations s' = [] \<and> ss_sections s' = [] \<and> ss_announcements s' = [])"
  proof
    assume h: "py_dict_get d 15 = None \<and> py_dict_get d 13 = None \<and> py_dict_get d 14 = None \<and>
      py_dict_get d 16 = None \<and> py_dict_get d 25 = None \<and> py_dict_get d 27 = None \<and>
      wt_datetime L (dict_get_default d 9 PNone) \<and> wt_datetime L (dict_get_default d 10 PNone) \<and>
      wt_datetime L (dict_get_default d 28 PNone)"
    then obtain s' where s': "SessionState_from_msgpack_dict L d = Inr s'"
      using absent_keys_decode [of d L] by blast
    from absent_key_defaults [OF s'] h s'
    show "\<exists>s'. SessionState_from_msgpack_dict L d = Inr s' \<and> ss_current_flag s' = UNKNOWN \<and>
                ss_event_entries s' = [] \<and> ss_car_positions s' = [] \<and>
                ss_flag_durations s' = [] \<and> ss_sections s' = [] \<and> ss_announcements s' = []"
      by (intro exI [of _ s']) simp
  qed
  from a b c show ?thesis by (intro conjI)
qed


text \<open>
  Witness for C10: a null flag, a null entry list, and a map without these keys.
\<close>

theorem null_is_not_absent_in_session_map_witness:
  "py_dict_get [(PInt 0, PInt 2), (PInt 15, PNone)] 15 = Some PNone
   \<and> raises (SessionState_from_msgpack_dict text_stdlib [(PInt 0, PInt 2), (PInt 15, PNone)])
   \<and> py_dict_get [(PInt 0, PInt 2), (PInt 13, PNone)] 13 = Some PNone
   \<and> raises (SessionState_from_msgpack_dict text_stdlib [(PInt 0, PInt 2), (PInt 13, PNone)])
   \<and> py_dict_get [(PInt 0, PInt 2)] 15 = None \<and> py_dict_get [(PInt 0, PInt 2)] 13 = None
   \<and> (\<exists>s'. SessionState_from_msgpack_dict text_stdlib [(PInt 0, PInt 2)] = Inr s' \<and>
           ss_current_flag s' = UNKNOWN \<and> ss_event_entries s' = [] \<and> ss_car_positions s' = [] \<and>
           ss_flag_durations s' = [] \<and> ss_sections s' = [] \<and> ss_announcements s' = [])"
  using null_is_not_absent_in_session_map [of "[(PInt 0, PInt 2), (PInt 15, PNone)]" text_stdlib]
    null_is_not_absent_in_session_map [of "[(PInt 0, PInt 2), (PInt 13, PNone)]" text_stdlib]
    null_is_not_absent_in_session_map [of "[(PInt 0, PInt 2)]" text_stdlib]
  by (simp add: dict_get_default_def wt_datetime_def raises_def)


section \<open>Collections are never None\<close>

lemma class_colors_not_None:
  "SessionState_from_msgpack_dict L d = Inr s \<Longrightarrow> ss_class_colors s \<noteq> PNone"
  by (auto simp: SessionState_from_msgpack_dict_def bindE_eq_Inr SessionState_init_def py_or_def
        split: if_splits)


lemma class_colors_is_dict:
  "SessionState_from_msgpack_dict L d = Inr s \<Longrightarrow>
   py_dict_get d 26 = None \<or> py_dict_get d 26 = Some PNone \<or>
     (\<exists>kvs. py_dict_get d 26 = Some (PDict kvs)) \<Longrightarrow>
   is_dict (ss_class_colors s)"
  by (auto simp: SessionState_from_msgpack_dict_def bindE_eq_Inr SessionState_init_def py_or_def
        dict_get_default_def is_dict_def)


lemma or_empty_list_not_None: "py_or a (PList []) \<noteq> PNone"
  by (cases a) (simp_all add: py_or_def)

lemma or_empty_list_is_list: "a = PNone \<or> is_list a \<Longrightarrow> is_list (py_or a (PList []))"
  by (cases a) (simp_all add: py_or_def is_list_def)

text \<open>
  C9, as the code has it. The collection fields are never \<^verbatim>\<open>None\<close>, and they are
  collections whenever the arguments are. After \<^verbatim>\<open>__init__\<close>, each list field is the
  list passed for it, or the empty list when \<^verbatim>\<open>None\<close> was passed (the parameters are
  annotated \<^verbatim>\<open>Optional[List[...]]\<close>, and typed so here); \<^verbatim>\<open>class_colors\<close>, which is stored
  from the wire unchecked, is never \<^verbatim>\<open>None\<close> whatever is passed, and is a dict when \<^verbatim>\<open>None\<close>
  or a dict is passed. A decoded session has \<^verbatim>\<open>class_colors\<close> not \<^verbatim>\<open>None\<close>, and a dict when
  key 26 is absent, null or a dict. The constructors' expression \<^verbatim>\<open>x or []\<close>, on any
  value \<^verbatim>\<open>x\<close> whatsoever, is never \<^verbatim>\<open>None\<close>, and is a list when \<^verbatim>\<open>x\<close> is \<^verbatim>\<open>None\<close> or a list.
\<close>

theorem collections_are_never_None:
  assumes "s = SessionState_init event_id event_name session_id session_name laps_to_go time_to_go
       local_time_of_day running_race_time is_practice_qualifying session_start_time
       session_end_time local_time_zone_offset is_live event_entries car_positions current_flag
       flag_durations green_time_ms green_laps yellow_time_ms yellow_laps number_of_yellows
       red_time_ms average_race_speed lead_changes sections class_colors announcements
       last_updated"
    and "c = CarPosition_init car_event_id car_session_id number transponder_id car_class best_time best_lap
       is_best_time is_best_time_class in_class_gap in_class_difference overall_gap
       overall_difference total_time last_lap_time last_lap_completed pit_stop_count
       last_lap_pitted laps_led_overall laps_led_in_class overall_position class_position
       overall_starting_position overall_positions_gained in_class_starting_position
       in_class_positions_gained is_overall_most_positions_gained is_class_most_positions_gained
       penalty_laps penalty_warnings black_flags is_entered_pit is_pit_start_finish
       is_exited_pit is_in_pit lap_included_pit last_loop_name is_stale track_flag local_flag
       lap_had_local_flag completed_sections projected_lap_time_ms lap_start_time driver_name
       driver_id in_car_video latitude longitude current_status impact_warning"
  shows "ss_event_entries s = (case event_entries of None \<Rightarrow> [] | Some xs \<Rightarrow> xs)
       \<and> ss_car_positions s = (case car_positions of None \<Rightarrow> [] | Some xs \<Rightarrow> xs)
       \<and> ss_flag_durations s = (case flag_durations of None \<Rightarrow> [] | Some xs \<Rightarrow> xs)
       \<and> ss_sections s = (case sections of None \<Rightarrow> [] | Some xs \<Rightarrow> xs)
       \<and> ss_announcements s = (case announcements of None \<Rightarrow> [] | Some xs \<Rightarrow> xs)
       \<and> ss_class_colors s \<noteq> PNone
       \<and> (class_colors = PNone \<or> is_dict class_colors \<longrightarrow> is_dict (ss_class_colors s))
       \<and> cp_completed_sections c = (case completed_sections of None \<Rightarrow> [] | Some xs \<Rightarrow> xs)
       \<and> (SessionState_from_msgpack_dict L d = Inr s' \<longrightarrow> ss_class_colors s' \<noteq> PNone)
       \<and> (SessionState_from_msgpack_dict L d = Inr s' \<and>
          (py_dict_get d 26 = None \<or> py_dict_get d 26 = Some PNone \<or>
           (\<exists>kvs. py_dict_get d 26 = Some (PDict kvs)))
          \<longrightarrow> is_dict (ss_class_colors s'))
       \<and> py_or a (PList []) \<noteq> PNone
       \<and> (a = PNone \<or> is_list a \<longrightarrow> is_list (py_or a (PList [])))"
proof -
  have lists: "ss_event_entries s = (case event_entries of None \<Rightarrow> [] | Some xs \<Rightarrow> xs)"
    "ss_car_positions s = (case car_positions of None \<Rightarrow> [] | Some xs \<Rightarrow> xs)"
    "ss_flag_durations s = (case flag_durations of None \<Rightarrow> [] | Some xs \<Rightarrow> xs)"
    "ss_sections s = (case sections of None \<Rightarrow> [] | Some xs \<Rightarrow> xs)"
    "ss_announcements s = (case announcements of None \<Rightarrow> [] | Some xs \<Rightarrow> xs)"
    unfolding assms(1)
    by (simp_all add: SessionState_init_def list_or_empty_def split: option.splits)
  have colors: "ss_class_colors s = py_or class_colors (PDict [])"
    unfolding assms(1) by (simp add: SessionState_init_def)
  have not_None: "ss_class_colors s \<noteq> PNone"
    unfolding colors by (auto simp: py_or_def)
  have dict: "class_colors = PNone \<or> is_dict class_colors \<longrightarrow> is_dict (ss_class_colors s)"
    unfolding colors by (auto simp: py_or_def is_dict_def)
  have sections: "cp_completed_sections c =
      (case completed_sections of None \<Rightarrow> [] | Some xs \<Rightarrow> xs)"
    unfolding assms(2)
    by (simp add: CarPosition_init_def list_or_empty_def split: option.splits)
  have decoded: "SessionState_from_msgpack_dict L d = Inr s' \<longrightarrow> ss_class_colors s' \<noteq> PNone"
    using class_colors_not_None [of L d s'] by (rule impI)
  have decoded_dict: "SessionState_from_msgpack_dict L d = Inr s' \<and>
          (py_dict_get d 26 = None \<or> py_dict_get d 26 = Some PNone \<or>
           (\<exists>kvs. py_dict_get d 26 = Some (PDict kvs)))
          \<longrightarrow> is_dict (ss_class_colors s')"
    using class_colors_is_dict [of L d s'] by (intro impI) (elim conjE)
  have any_list: "a = PNone \<or> is_list a \<longrightarrow> is_list (py_or a (PList []))"
    using or_empty_list_is_list [of a] by (rule impI)
  show ?thesis
    by (intro conjI lists not_None dict sections decoded decoded_dict or_empty_list_not_None
          any_list)
qed


text \<open>
  Witness for C9: a session and a car built with \<^verbatim>\<open>None\<close> for every collection.
\<close>

theorem collections_are_never_None_witness:
  "ss_event_entries (SessionState_default :: (string, string) SessionState) = []
   \<and> ss_car_positions (SessionState_default :: (string, string) SessionState) = []
   \<and> ss_flag_durations (SessionState_default :: (string, string) SessionState) = []
   \<and> ss_sections (SessionState_default :: (string, string) SessionState) = []
   \<and> ss_announcements (SessionState_default :: (string, string) SessionState) = []
   \<and> ss_class_colors (SessionState_default :: (string, string) SessionState) \<noteq> PNone
   \<and> is_dict (ss_class_colors (SessionState_default :: (string, string) SessionState))
   \<and> cp_completed_sections (CarPosition_default :: string CarPosition) = []"
  using collections_are_never_None
    [OF SessionState_default_def [where ?'dt = string and ?'tm = string]
        CarPosition_default_def [where ?'tm = string], of text_stdlib "[]"]
  by simp

text \<open>
  Counterexample to C9 as stated: the map \<^verbatim>\<open>{26: 'red'}\<close> decodes to a session whose
  \<^verbatim>\<open>class_colors\<close> is the string \<^verbatim>\<open>'red'\<close>, which is not a dict; a session built with
  \<^verbatim>\<open>class_colors=7\<close> holds 7; and \<^verbatim>\<open>'abc' or []\<close> is \<^verbatim>\<open>'abc'\<close>, which is not a list. A true
  argument of another type is stored as it is.
\<close>

theorem class_colors_not_a_dict_counterexample:
  "SessionState_from_msgpack_dict text_stdlib [(PInt 26, PStr ''red'')] =
     Inr (SessionState_default\<lparr>ss_class_colors := PStr ''red''\<rparr>)
   \<and> \<not> is_dict (PStr ''red'')
   \<and> ss_class_colors
       (SessionState_init (PInt 0) (PStr []) (PInt 0) (PStr []) (PInt 0) (PStr []) (PStr [])
          (PStr []) (PBool False) None None (PFloat 0) (PBool False) None None UNKNOWN None
          PNone PNone PNone PNone PNone PNone PNone PNone None (PInt 7) None None
        :: (string, string) SessionState) = PInt 7
   \<and> \<not> is_dict (PInt 7)
   \<and> py_or (PStr ''abc'') (PList []) = PStr ''abc''
   \<and> \<not> is_list (PStr ''abc'')"
  by (simp add: SessionState_from_msgpack_dict_def SessionState_default_def SessionState_init_def
        dict_get_default_def py_or_def is_dict_def is_list_def list_or_empty_def
        Flags_call_def Flags_of_int_def)

section \<open>Round trip of every entity\<close>

text \<open>
  C2. Round trip: for every core type, decoding the encoding of an entity returns that
  entity, field for field. \<^verbatim>\<open>SessionState\<close> goes through \<^verbatim>\<open>to_msgpack_dict\<close> and
  \<^verbatim>\<open>from_msgpack_dict\<close> and needs its \<^verbatim>\<open>class_colors\<close> to be a dict (as \<^verbatim>\<open>__init__\<close> leaves
  it); the other types go through \<^verbatim>\<open>to_msgpack\<close> and \<^verbatim>\<open>from_msgpack\<close>. The assumption is
  that \<^verbatim>\<open>fromisoformat\<close> reads back what \<^verbatim>\<open>isoformat\<close> writes.
\<close>

theorem decode_encode_roundtrip:
  assumes "isoformat_roundtrip L"
  shows "(is_dict (ss_class_colors s)
           \<longrightarrow> SessionState_from_msgpack_dict L (SessionState_to_msgpack_dict L s) = Inr s)
       \<and> CarPosition_from_msgpack L (PList (CarPosition_to_msgpack L car)) = Inr car
       \<and> EventEntry_from_msgpack (PList (EventEntry_to_msgpack entry)) = Inr entry
       \<and> FlagDuration_from_msgpack L (PList (FlagDuration_to_msgpack L fd)) = Inr fd
       \<and> Section_from_msgpack (PList (Section_to_msgpack sec)) = Inr sec
       \<and> Announcement_from_msgpack L (PList (Announcement_to_msgpack L ann)) = Inr ann
       \<and> CompletedSection_from_msgpack (PList (CompletedSection_to_msgpack cs)) = Inr cs
       \<and> VideoStatus_from_msgpack (PList (VideoStatus_to_msgpack vs)) = Inr vs
       \<and> VideoDestination_from_msgpack (PList (VideoDestination_to_msgpack vd)) = Inr vd"
  using assms
  by (intro conjI impI SessionState_roundtrip CarPosition_roundtrip EventEntry_roundtrip
        FlagDuration_roundtrip Section_roundtrip Announcement_roundtrip CompletedSection_roundtrip
        VideoStatus_roundtrip VideoDestination_roundtrip)

text \<open>
  Witness for C2: a session with one car, a start time and class colours.
\<close>

theorem decode_encode_roundtrip_witness:
  "isoformat_roundtrip text_stdlib
   \<and> is_dict (ss_class_colors
        (SessionState_default
           \<lparr>ss_event_id := PInt 2, ss_event_name := PStr ''Test Race'',
            ss_session_start_time := Some ''2025-06-01T10:00:00'',
            ss_car_positions :=
              [CarPosition_default
                 \<lparr>cp_number := PStr ''60'', cp_overall_position := PInt 3,
                  cp_lap_start_time := Some ''10:15:00''\<rparr>],
            ss_current_flag := GREEN,
            ss_class_colors := PDict [(PStr ''GT'', PStr ''#FF0000'')]\<rparr>))
   \<and> SessionState_from_msgpack_dict text_stdlib
        (SessionState_to_msgpack_dict text_stdlib
           (SessionState_default
              \<lparr>ss_event_id := PInt 2, ss_event_name := PStr ''Test Race'',
               ss_session_start_time := Some ''2025-06-01T10:00:00'',
               ss_car_positions :=
                 [CarPosition_default
                    \<lparr>cp_number := PStr ''60'', cp_overall_position := PInt 3,
                     cp_lap_start_time := Some ''10:15:00''\<rparr>],
               ss_current_flag := GREEN,
               ss_class_colors := PDict [(PStr ''GT'', PStr ''#FF0000'')]\<rparr>)) =
      Inr (SessionState_default
             \<lparr>ss_event_id := PInt 2, ss_event_name := PStr ''Test Race'',
              ss_session_start_time := Some ''2025-06-01T10:00:00'',
              ss_car_positions :=
                [CarPosition_default
                   \<lparr>cp_number := PStr ''60'', cp_overall_position := PInt 3,
                    cp_lap_start_time := Some ''10:15:00''\<rparr>],
              ss_current_flag := GREEN,
              ss_class_colors := PDict [(PStr ''GT'', PStr ''#FF0000'')]\<rparr>)"
proof -
  have d: "is_dict (ss_class_colors
        (SessionState_default
           \<lparr>ss_event_id := PInt 2, ss_event_name := PStr ''Test Race'',
            ss_session_start_time := Some ''2025-06-01T10:00:00'',
            ss_car_positions :=
              [CarPosition_default
                 \<lparr>cp_number := PStr ''60'', cp_overall_position := PInt 3,
                  cp_lap_start_time := Some ''10:15:00''\<rparr>],
            ss_current_flag := GREEN,
            ss_class_colors := PDict [(PStr ''GT'', PStr ''#FF0000'')]\<rparr>))"
    by (simp add: is_dict_def)
  from decode_encode_roundtrip [OF isoformat_roundtrip_text_stdlib] d
    isoformat_roundtrip_text_stdlib
  show ?thesis by blast
qed

section \<open>Default fill\<close>

text \<open>
  C3. Default fill: for every core type, decoding an array of any length \<open>k\<close> whose
  interpreted positions are well typed succeeds, and every field at an index \<open>\<ge> k\<close> equals
  the field of the entity built with no argument. For \<^verbatim>\<open>SessionState\<close> the array goes
  through the array path of \<^verbatim>\<open>get_current_session_state\<close>. The last conjunct spells out
  the defaults of \<^verbatim>\<open>CarPosition\<close>: \<^verbatim>\<open>None\<close> for the nullable scalars, 0 for the counters,
  \<^verbatim>\<open>False\<close> for the booleans, the empty string for the names, \<^verbatim>\<open>Flags.UNKNOWN\<close> for the
  flags, the empty list for \<^verbatim>\<open>completed_sections\<close> and -999 for the positions gained.
\<close>

theorem truncated_array_decodes_to_defaults:
  "(wt_CarPosition L car \<longrightarrow>
      (\<exists>c. CarPosition_from_msgpack L (PList car) = Inr c \<and>
           agree_from (length car) (CarPosition_field_eqs c CarPosition_default)))
   \<and> (\<exists>e. EventEntry_from_msgpack (PList entry) = Inr e \<and>
           agree_from (length entry) (EventEntry_field_eqs e EventEntry_default))
   \<and> (wt_FlagDuration L fd \<longrightarrow>
      (\<exists>f. FlagDuration_from_msgpack L (PList fd) = Inr f \<and>
           agree_from (length fd) (FlagDuration_field_eqs f FlagDuration_default)))
   \<and> (\<exists>s. Section_from_msgpack (PList sec) = Inr s \<and>
           agree_from (length sec) (Section_field_eqs s Section_default))
   \<and> (wt_Announcement L ann \<longrightarrow>
      (\<exists>a. Announcement_from_msgpack L (PList ann) = Inr a \<and>
           agree_from (length ann) (Announcement_field_eqs a Announcement_default)))
   \<and> (\<exists>c. CompletedSection_from_msgpack (PList cs) = Inr c \<and>
           agree_from (length cs) (CompletedSection_field_eqs c CompletedSection_default))
   \<and> (wt_VideoStatus vs \<longrightarrow>
      (\<exists>v. VideoStatus_from_msgpack (PList vs) = Inr v \<and>
           agree_from (length vs) (VideoStatus_field_eqs v VideoStatus_default)))
   \<and> (wt_VideoDestination vd \<longrightarrow>
      (\<exists>v. VideoDestination_from_msgpack (PList vd) = Inr v \<and>
           agree_from (length vd) (VideoDestination_field_eqs v VideoDestination_default)))
   \<and> (wt_SessionState L session \<longrightarrow>
      (\<exists>s. get_current_session_state_decode L (PList session) = Inr s \<and>
           agree_from (length session) (SessionState_field_eqs s SessionState_default)))
   \<and> (CarPosition_default :: 'tm CarPosition) =
       \<lparr>cp_event_id = PNone,
        cp_session_id = PNone,
        cp_number = PNone,
        cp_transponder_id = PInt 0,
        cp_car_class = PNone,
        cp_best_time = PNone,
        cp_best_lap = PInt 0,
        cp_is_best_time = PBool False,
        cp_is_best_time_class = PBool False,
        cp_in_class_gap = PNone,
        cp_in_class_difference = PNone,
        cp_overall_gap = PNone,
        cp_overall_difference = PNone,
        cp_total_time = PNone,
        cp_last_lap_time = PNone,
        cp_last_lap_completed = PInt 0,
        cp_pit_stop_count = PNone,
        cp_last_lap_pitted = PNone,
        cp_laps_led_overall = PNone,
        cp_laps_led_in_class = PNone,
        cp_overall_position = PInt 0,
        cp_class_position = PInt 0,
        cp_overall_starting_position = PInt 0,
        cp_overall_positions_gained = PInt (- 999),
        cp_in_class_starting_position = PInt 0,
        cp_in_class_positions_gained = PInt (- 999),
        cp_is_overall_most_positions_gained = PBool False,
        cp_is_class_most_positions_gained = PBool False,
        cp_penalty_laps = PInt 0,
        cp_penalty_warnings = PInt 0,
        cp_black_flags = PInt 0,
        cp_is_entered_pit = PBool False,
        cp_is_pit_start_finish = PBool False,
        cp_is_exited_pit = PBool False,
        cp_is_in_pit = PBool False,
        cp_lap_included_pit = PBool False,
        cp_last_loop_name = PStr [],
        cp_is_stale = PBool False,
        cp_track_flag = UNKNOWN,
        cp_local_flag = UNKNOWN,
        cp_lap_had_local_flag = PNone,
        cp_completed_sections = [],
        cp_projected_lap_time_ms = PInt 0,
        cp_lap_start_time = None,
        cp_driver_name = PStr [],
        cp_driver_id = PStr [],
        cp_in_car_video = None,
        cp_latitude = PNone,
        cp_longitude = PNone,
        cp_current_status = PStr [],
        cp_impact_warning = PBool False\<rparr>"
proof -
  have "(CarPosition_default :: 'tm CarPosition) =
       \<lparr>cp_event_id = PNone,
        cp_session_id = PNone,
        cp_number = PNone,
        cp_transponder_id = PInt 0,
        cp_car_class = PNone,
        cp_best_time = PNone,
        cp_best_lap = PInt 0,
        cp_is_best_time = PBool False,
        cp_is_best_time_class = PBool False,
        cp_in_class_gap = PNone,
        cp_in_class_difference = PNone,
        cp_overall_gap = PNone,
        cp_overall_difference = PNone,
        cp_total_time = PNone,
        cp_last_lap_time = PNone,
        cp_last_lap_completed = PInt 0,
        cp_pit_stop_count = PNone,
        cp_last_lap_pitted = PNone,
        cp_laps_led_overall = PNone,
        cp_laps_led_in_class = PNone,
        cp_overall_position = PInt 0,
        cp_class_position = PInt 0,
        cp_overall_starting_position = PInt 0,
        cp_overall_positions_gained = PInt (- 999),
        cp_in_class_starting_position = PInt 0,
        cp_in_class_positions_gained = PInt (- 999),
        cp_is_overall_most_positions_gained = PBool False,
        cp_is_class_most_positions_gained = PBool False,
        cp_penalty_laps = PInt 0,
        cp_penalty_warnings = PInt 0,
        cp_black_flags = PInt 0,
        cp_is_entered_pit = PBool False,
        cp_is_pit_start_finish = PBool False,
        cp_is_exited_pit = PBool False,
        cp_is_in_pit = PBool False,
        cp_lap_included_pit = PBool False,
        cp_last_loop_name = PStr [],
        cp_is_stale = PBool False,
        cp_track_flag = UNKNOWN,
        cp_local_flag = UNKNOWN,
        cp_lap_had_local_flag = PNone,
        cp_completed_sections = [],
        cp_projected_lap_time_ms = PInt 0,
        cp_lap_start_time = None,
        cp_driver_name = PStr [],
        cp_driver_id = PStr [],
        cp_in_car_video = None,
        cp_latitude = PNone,
        cp_longitude = PNone,
        cp_current_status = PStr [],
        cp_impact_warning = PBool False\<rparr>"
    by (simp add: CarPosition_default_def CarPosition_init_def list_or_empty_def
          INVALID_POSITION_def)
  then show ?thesis
    using CarPosition_default_fill [of L car] EventEntry_default_fill [of entry]
      FlagDuration_default_fill [of L fd] Section_default_fill [of sec]
      Announcement_default_fill [of L ann] CompletedSection_default_fill [of cs]
      VideoStatus_default_fill [of vs] VideoDestination_default_fill [of vd]
      SessionState_default_fill [of L session]
    by (intro conjI impI)
qed

text \<open>
  Witness for C3: truncated arrays of each type with a well-typedness condition.
\<close>

theorem truncated_array_decodes_to_defaults_witness:
  "wt_CarPosition text_stdlib (replicate 38 PNone @ [PInt 1, PInt 2])
   \<and> (\<exists>c. CarPosition_from_msgpack text_stdlib (PList (replicate 38 PNone @ [PInt 1, PInt 2])) = Inr c
          \<and> agree_from (length (replicate 38 PNone @ [PInt 1, PInt 2]))
               (CarPosition_field_eqs c CarPosition_default))
   \<and> wt_FlagDuration text_stdlib [PInt 2, PStr ''2025-06-01T10:00:00'']
   \<and> (\<exists>f. FlagDuration_from_msgpack text_stdlib (PList [PInt 2, PStr ''2025-06-01T10:00:00'']) = Inr f
          \<and> agree_from (length [PInt 2, PStr ''2025-06-01T10:00:00''])
               (FlagDuration_field_eqs f FlagDuration_default))
   \<and> wt_Announcement text_stdlib [PStr ''2025-06-01T10:00:00'']
   \<and> (\<exists>a. Announcement_from_msgpack text_stdlib (PList [PStr ''2025-06-01T10:00:00'']) = Inr a
          \<and> agree_from (length [PStr ''2025-06-01T10:00:00''])
               (Announcement_field_eqs a Announcement_default))
   \<and> wt_VideoStatus [PInt 1]
   \<and> (\<exists>v. VideoStatus_from_msgpack (PList [PInt 1]) = Inr v
          \<and> agree_from (length [PInt 1]) (VideoStatus_field_eqs v VideoStatus_default))
   \<and> wt_VideoDestination [PInt 1, PStr ''https://example.org'']
   \<and> (\<exists>v. VideoDestination_from_msgpack (PList [PInt 1, PStr ''https://example.org'']) = Inr v
          \<and> agree_from (length [PInt 1, PStr ''https://example.org''])
               (VideoDestination_field_eqs v VideoDestination_default))
   \<and> wt_SessionState text_stdlib [PInt 2, PStr ''Test Race'']
   \<and> (\<exists>s. get_current_session_state_decode text_stdlib (PList [PInt 2, PStr ''Test Race'']) = Inr s
          \<and> agree_from (length [PInt 2, PStr ''Test Race''])
               (SessionState_field_eqs s SessionState_default))"
proof -
  have w: "wt_CarPosition text_stdlib (replicate 38 PNone @ [PInt 1, PInt 2])"
    "wt_FlagDuration text_stdlib [PInt 2, PStr ''2025-06-01T10:00:00'']"
    "wt_Announcement text_stdlib [PStr ''2025-06-01T10:00:00'']"
    "wt_VideoStatus [PInt 1]"
    "wt_VideoDestination [PInt 1, PStr ''https://example.org'']"
    "wt_SessionState text_stdlib [PInt 2, PStr ''Test Race'']"
    by (simp_all add: wt_CarPosition_def wt_FlagDuration_def wt_Announcement_def
          wt_VideoStatus_def wt_VideoDestination_def wt_SessionState_def at_index_def
          is_enum_code_def wt_datetime_def text_stdlib_def nth_append)
  from w truncated_array_decodes_to_defaults
    [of text_stdlib "replicate 38 PNone @ [PInt 1, PInt 2]" _
        "[PInt 2, PStr ''2025-06-01T10:00:00'']" _ "[PStr ''2025-06-01T10:00:00'']" _
        "[PInt 1]" "[PInt 1, PStr ''https://example.org'']" "[PInt 2, PStr ''Test Race'']"]
  show ?thesis by blast
qed

section \<open>Patch reconciliation keeps what the patch leaves absent\<close>



end
